theory Spec2Isabelle
  imports Complex_Main "HOL-Library.Signed_Division"
begin

section \<open>Double-precision values\<close>

text \<open>
  The transport kernels of \<^verbatim>\<open>src/omp3/neutral.c\<close> compute on C doubles. A double is
  modelled as an exact real number or one of the three special values of IEEE 754:
  the two infinities and the not-a-number. Arithmetic on finite values is exact (no
  rounding and no overflow); the special values follow IEEE 754, so a division by zero
  gives an infinity (or a not-a-number for zero by zero) and a comparison with a
  not-a-number is false. A zero carries no sign: a zero divisor counts as +0.0.
  What the rounding of a double decides is therefore outside this model.
\<close>

datatype dbl = Fin real | PInf | NInf | NaN

instantiation dbl :: "{zero, one, plus, uminus, minus, times, inverse, ord}"
begin

definition zero_dbl :: dbl where
  "zero_dbl = Fin 0"

definition one_dbl :: dbl where
  "one_dbl = Fin 1"

fun plus_dbl :: "dbl \<Rightarrow> dbl \<Rightarrow> dbl" where
  "plus_dbl (Fin a) (Fin b) = Fin (a + b)"
| "plus_dbl NaN _ = NaN"
| "plus_dbl _ NaN = NaN"
| "plus_dbl PInf NInf = NaN"
| "plus_dbl NInf PInf = NaN"
| "plus_dbl PInf _ = PInf"
| "plus_dbl _ PInf = PInf"
| "plus_dbl NInf _ = NInf"
| "plus_dbl _ NInf = NInf"

fun uminus_dbl :: "dbl \<Rightarrow> dbl" where
  "uminus_dbl (Fin a) = Fin (- a)"
| "uminus_dbl PInf = NInf"
| "uminus_dbl NInf = PInf"
| "uminus_dbl NaN = NaN"

definition minus_dbl :: "dbl \<Rightarrow> dbl \<Rightarrow> dbl" where
  "minus_dbl a b = a + (- b)"

fun times_dbl :: "dbl \<Rightarrow> dbl \<Rightarrow> dbl" where
  "times_dbl (Fin a) (Fin b) = Fin (a * b)"
| "times_dbl NaN _ = NaN"
| "times_dbl _ NaN = NaN"
| "times_dbl PInf (Fin b) = (if 0 < b then PInf else if b < 0 then NInf else NaN)"
| "times_dbl NInf (Fin b) = (if 0 < b then NInf else if b < 0 then PInf else NaN)"
| "times_dbl (Fin a) PInf = (if 0 < a then PInf else if a < 0 then NInf else NaN)"
| "times_dbl (Fin a) NInf = (if 0 < a then NInf else if a < 0 then PInf else NaN)"
| "times_dbl PInf PInf = PInf"
| "times_dbl PInf NInf = NInf"
| "times_dbl NInf PInf = NInf"
| "times_dbl NInf NInf = PInf"

fun divide_dbl :: "dbl \<Rightarrow> dbl \<Rightarrow> dbl" where
  "divide_dbl (Fin a) (Fin b) =
     (if b \<noteq> 0 then Fin (a / b)
      else if 0 < a then PInf else if a < 0 then NInf else NaN)"
| "divide_dbl NaN _ = NaN"
| "divide_dbl _ NaN = NaN"
| "divide_dbl (Fin a) PInf = Fin 0"
| "divide_dbl (Fin a) NInf = Fin 0"
| "divide_dbl PInf (Fin b) = (if 0 \<le> b then PInf else NInf)"
| "divide_dbl NInf (Fin b) = (if 0 \<le> b then NInf else PInf)"
| "divide_dbl PInf PInf = NaN"
| "divide_dbl PInf NInf = NaN"
| "divide_dbl NInf PInf = NaN"
| "divide_dbl NInf NInf = NaN"

definition inverse_dbl :: "dbl \<Rightarrow> dbl" where
  "inverse_dbl a = Fin 1 div a"

fun less_dbl :: "dbl \<Rightarrow> dbl \<Rightarrow> bool" where
  "less_dbl (Fin a) (Fin b) = (a < b)"
| "less_dbl NaN _ = False"
| "less_dbl _ NaN = False"
| "less_dbl NInf NInf = False"
| "less_dbl NInf _ = True"
| "less_dbl PInf _ = False"
| "less_dbl (Fin a) PInf = True"
| "less_dbl (Fin a) NInf = False"

fun less_eq_dbl :: "dbl \<Rightarrow> dbl \<Rightarrow> bool" where
  "less_eq_dbl (Fin a) (Fin b) = (a \<le> b)"
| "less_eq_dbl NaN _ = False"
| "less_eq_dbl _ NaN = False"
| "less_eq_dbl NInf _ = True"
| "less_eq_dbl PInf PInf = True"
| "less_eq_dbl PInf _ = False"
| "less_eq_dbl (Fin a) PInf = True"
| "less_eq_dbl (Fin a) NInf = False"

instance ..

end

text \<open>The functions of \<^verbatim>\<open>math.h\<close> the kernels call.\<close>

fun dsqrt :: "dbl \<Rightarrow> dbl" where
  "dsqrt (Fin a) = (if 0 \<le> a then Fin (sqrt a) else NaN)"
| "dsqrt PInf = PInf"
| "dsqrt NInf = NaN"
| "dsqrt NaN = NaN"

fun dlog :: "dbl \<Rightarrow> dbl" where
  "dlog (Fin a) = (if 0 < a then Fin (ln a) else if a = 0 then NInf else NaN)"
| "dlog PInf = PInf"
| "dlog NInf = NaN"
| "dlog NaN = NaN"

fun dcos :: "dbl \<Rightarrow> dbl" where
  "dcos (Fin a) = Fin (cos a)"
| "dcos _ = NaN"

fun dsin :: "dbl \<Rightarrow> dbl" where
  "dsin (Fin a) = Fin (sin a)"
| "dsin _ = NaN"

text \<open>An array passed as a bare \<^verbatim>\<open>double*\<close>: the memory it points into, by offset.\<close>

type_synonym darray = "int \<Rightarrow> dbl"

section \<open>Data model\<close>

text \<open>
  The header \<^verbatim>\<open>neutral_interface.h\<close> and the random number generator \<^verbatim>\<open>rand.h\<close> are not
  among the sources. Their macros are taken as parameters, and so is the generator:
  \<^verbatim>\<open>random_doubles pkey master_key counter\<close> stands for the four values
  \<^verbatim>\<open>rand.v[i] * FACTOR + HALF_FACTOR\<close> that \<^verbatim>\<open>generate_random_numbers\<close> returns.
\<close>

record externals =
  BLOCK_SIZE :: int
  OPEN_BOUND_CORRECTION :: dbl
  AVOGADROS :: dbl
  MOLAR_MASS :: dbl
  BARNS :: dbl
  eV_TO_J :: dbl
  PARTICLE_MASS :: dbl
  MASS_NO :: dbl
  MIN_ENERGY_OF_INTEREST :: dbl
  random_doubles :: "nat \<Rightarrow> nat \<Rightarrow> nat \<Rightarrow> dbl \<times> dbl \<times> dbl \<times> dbl"

text \<open>
  A cross-section table (\<^verbatim>\<open>CrossSection\<close>): the arrays \<^verbatim>\<open>keys\<close> and \<^verbatim>\<open>values\<close> with
  their extent, and the field \<^verbatim>\<open>nentries\<close>.
\<close>

record CrossSection =
  cs_keys :: "dbl list"
  cs_values :: "dbl list"
  nentries :: int

text \<open>
  One lane \<^verbatim>\<open>ip\<close> of a \<^verbatim>\<open>Particle\<close> block (a struct of arrays of \<^verbatim>\<open>BLOCK_SIZE\<close> entries):
  the fields are named as the pointers \<^verbatim>\<open>handle_particles\<close> takes to them.
\<close>

record particle =
  p_x :: dbl
  p_y :: dbl
  p_omega_x :: dbl
  p_omega_y :: dbl
  p_energy :: dbl
  p_weight :: dbl
  p_dt_to_census :: dbl
  p_mfp_to_collision :: dbl
  p_cellx :: int
  p_celly :: int
  p_dead :: int

datatype event = PARTICLE_DEAD | PARTICLE_COLLISION | PARTICLE_FACET | PARTICLE_CENSUS

text \<open>
  One lane \<^verbatim>\<open>ip\<close> of the arrays a thread of \<^verbatim>\<open>handle_particles\<close> keeps on its stack
  (neutral.c, lines 83-97); the field \<^verbatim>\<open>c_speed\<close> is \<^verbatim>\<open>speed[ip]\<close>, and so on.
\<close>

record cache =
  c_x_facet :: int
  c_absorb_cs_index :: int
  c_scatter_cs_index :: int
  c_cell_mfp :: dbl
  c_local_density :: dbl
  c_microscopic_cs_scatter :: dbl
  c_microscopic_cs_absorb :: dbl
  c_number_density :: dbl
  c_macroscopic_cs_scatter :: dbl
  c_macroscopic_cs_absorb :: dbl
  c_speed :: dbl
  c_energy_deposition :: dbl
  c_distance_to_facet :: dbl
  c_key :: nat
  c_next_event :: event

text \<open>
  The arguments \<^verbatim>\<open>solve_transport_2d\<close> passes on to \<^verbatim>\<open>handle_particles\<close> and the
  kernels, read-only during a time step.
\<close>

record args =
  a_global_nx :: int
  a_global_ny :: int
  a_nx :: int
  a_ny :: int
  a_pad :: int
  a_x_off :: int
  a_y_off :: int
  a_master_key :: nat
  a_initial :: int
  a_dt :: dbl
  a_ntotal_particles :: int
  a_density :: darray
  a_edgex :: darray
  a_edgey :: darray
  a_cs_scatter_table :: CrossSection
  a_cs_absorb_table :: CrossSection

text \<open>
  What a run of the code can end in besides a result: a read outside a cross-section
  table (undefined behaviour in C) and the fatal \<^verbatim>\<open>TERMINATE\<close>. A loop that does not
  return is the value \<^verbatim>\<open>None\<close>.
\<close>

datatype error = OutOfBounds | Terminated

section \<open>Cross-section lookup: \<^verbatim>\<open>microscopic_cs_for_energy_binary\<close>\<close>

definition in_table :: "dbl list \<Rightarrow> int \<Rightarrow> bool" where
  "in_table ks i = (0 \<le> i \<and> i < int (length ks))"

text \<open>
  The \<^verbatim>\<open>while\<close> loop of the lookup (neutral.c, lines 609-612). The condition
  \<^verbatim>\<open>energy < keys[ind] || energy >= keys[ind + 1]\<close> reads \<^verbatim>\<open>keys[ind + 1]\<close> only when its
  first disjunct is false.
\<close>

partial_function (option) cs_search :: "dbl list \<Rightarrow> dbl \<Rightarrow> int \<Rightarrow> int \<Rightarrow> (error + int) option" where
  "cs_search ks energy ind width =
     (if \<not> in_table ks ind then Some (Inl OutOfBounds)
      else if energy < ks ! nat ind
        then cs_search ks energy (ind + (- width)) (max 1 (width sdiv 2))
      else if \<not> in_table ks (ind + 1) then Some (Inl OutOfBounds)
      else if ks ! nat (ind + 1) \<le> energy
        then cs_search ks energy (ind + width) (max 1 (width sdiv 2))
      else Some (Inr ind))"

text \<open>The value returned for the bin \<^verbatim>\<open>ind\<close>, linearly interpolated (lines 617-619).\<close>

definition cs_interpolate :: "CrossSection \<Rightarrow> dbl \<Rightarrow> int \<Rightarrow> dbl" where
  "cs_interpolate cs energy ind =
     cs_values cs ! nat ind +
       ((energy - cs_keys cs ! nat ind) / (cs_keys cs ! nat (ind + 1) - cs_keys cs ! nat ind)) *
       (cs_values cs ! nat (ind + 1) - cs_values cs ! nat ind)"

text \<open>The lookup returns the value and, through \<^verbatim>\<open>cs_index\<close>, the bin.\<close>

definition microscopic_cs_for_energy_binary ::
  "CrossSection \<Rightarrow> dbl \<Rightarrow> (error + dbl \<times> int) option" where
  "microscopic_cs_for_energy_binary cs energy =
     (let ind0 = nentries cs sdiv 2;
          width0 = ind0 sdiv 2
      in case cs_search (cs_keys cs) energy ind0 width0 of
           None \<Rightarrow> None
         | Some (Inl e) \<Rightarrow> Some (Inl e)
         | Some (Inr ind) \<Rightarrow>
             if in_table (cs_values cs) ind \<and> in_table (cs_values cs) (ind + 1)
             then Some (Inr (cs_interpolate cs energy ind, ind))
             else Some (Inl OutOfBounds))"

text \<open>
  The energies a table brackets: its keys strictly increase and the energy lies from the
  first key up to, and not including, the last. \<^verbatim>\<open>bin_of\<close> is the bin of an energy.
\<close>

definition bracketed :: "dbl list \<Rightarrow> dbl \<Rightarrow> bool" where
  "bracketed ks energy =
     (sorted_wrt (<) ks \<and> ks ! 0 \<le> energy \<and> energy < ks ! (length ks - 1))"

definition bin_of :: "dbl list \<Rightarrow> dbl \<Rightarrow> int \<Rightarrow> bool" where
  "bin_of ks e i = (0 \<le> i \<and> nat i + 1 < length ks \<and> ks ! nat i \<le> e \<and> e < ks ! (nat i + 1))"

section \<open>Geometry kernel: \<^verbatim>\<open>calc_distance_to_facet\<close>\<close>

text \<open>
  The local variables \<^verbatim>\<open>dt_x\<close> and \<^verbatim>\<open>dt_y\<close> of \<^verbatim>\<open>calc_distance_to_facet\<close>
  (neutral.c, lines 549-564): the time to reach the next facet along one axis.
  \<^verbatim>\<open>obc\<close> is the macro \<^verbatim>\<open>OPEN_BOUND_CORRECTION\<close>, whose header is not among the sources.
\<close>

definition facet_dt :: "dbl \<Rightarrow> dbl \<Rightarrow> dbl \<Rightarrow> dbl \<Rightarrow> int \<Rightarrow> darray \<Rightarrow> dbl" where
  "facet_dt obc x omega speed cell edge =
     (let u_inv = Fin 1 / (omega * speed)
      in if Fin 0 \<le> omega
         then (edge (cell + 1) - x) * u_inv
         else ((edge cell - obc) - x) * u_inv)"

definition calc_distance_to_facet ::
  "dbl \<Rightarrow> int \<Rightarrow> dbl \<Rightarrow> dbl \<Rightarrow> int \<Rightarrow> int \<Rightarrow> int \<Rightarrow> dbl \<Rightarrow> dbl \<Rightarrow> dbl \<Rightarrow> int \<Rightarrow> int
     \<Rightarrow> darray \<Rightarrow> darray \<Rightarrow> dbl \<times> int" where
  "calc_distance_to_facet obc global_nx x y pad x_off y_off omega_x omega_y speed
       particle_cellx particle_celly edgex edgey =
     (let cellx = particle_cellx - x_off + pad;
          celly = particle_celly - y_off + pad;
          dt_x = facet_dt obc x omega_x speed cellx edgex;
          dt_y = facet_dt obc y omega_y speed celly edgey;
          x_facet = (if dt_x < dt_y then 1 else 0);
          mag_u0 = speed
      in (if x_facet \<noteq> 0 then dt_x * mag_u0 else dt_y * mag_u0, x_facet))"


section \<open>Tally and energy deposition\<close>

text \<open>
  The kernels are modelled as compiled by default: neither \<^verbatim>\<open>TALLY_OUT\<close> nor
  \<^verbatim>\<open>MANUAL_ATOMIC\<close> is defined.
\<close>

definition inv_ntotal_particles :: "args \<Rightarrow> dbl" where
  "inv_ntotal_particles ar = Fin 1 / Fin (real_of_int (a_ntotal_particles ar))"

definition calculate_energy_deposition ::
  "externals \<Rightarrow> dbl \<Rightarrow> dbl \<Rightarrow> dbl \<Rightarrow> dbl \<Rightarrow> particle \<Rightarrow> dbl" where
  "calculate_energy_deposition ex path_length number_density microscopic_cs_absorb
       microscopic_cs_total p =
     (let average_exit_energy_absorb = Fin 0;
          absorption_heating =
            (microscopic_cs_absorb / microscopic_cs_total) * average_exit_energy_absorb;
          average_exit_energy_scatter =
            p_energy p *
            ((MASS_NO ex * MASS_NO ex + MASS_NO ex + Fin 1) /
             ((MASS_NO ex + Fin 1) * (MASS_NO ex + Fin 1)));
          scattering_heating =
            (Fin 1 - (microscopic_cs_absorb / microscopic_cs_total)) *
            average_exit_energy_scatter;
          heating_response = (p_energy p - scattering_heating - absorption_heating)
      in p_weight p * path_length * (microscopic_cs_total * BARNS ex) *
         heating_response * number_density)"

definition tally_index :: "args \<Rightarrow> particle \<Rightarrow> int" where
  "tally_index ar p =
     (let cellx = p_cellx p - a_x_off ar;
          celly = p_celly p - a_y_off ar
      in celly * a_nx ar + cellx)"

definition update_tallies :: "args \<Rightarrow> dbl \<Rightarrow> darray \<Rightarrow> particle \<Rightarrow> darray" where
  "update_tallies ar energy_deposition energy_deposition_tally p =
     energy_deposition_tally
       (tally_index ar p :=
          energy_deposition_tally (tally_index ar p) +
          energy_deposition * inv_ntotal_particles ar)"

definition generate_random_numbers ::
  "externals \<Rightarrow> nat \<Rightarrow> nat \<Rightarrow> nat \<Rightarrow> dbl \<times> dbl \<times> dbl \<times> dbl" where
  "generate_random_numbers ex pkey master_key counter = random_doubles ex pkey master_key counter"

section \<open>Event kernels\<close>

text \<open>
  The absorption branch of \<^verbatim>\<open>collision_event\<close> (lines 354-370): implicit capture, and
  the death of a particle below the energy of interest.
\<close>

definition collision_absorb ::
  "externals \<Rightarrow> args \<Rightarrow> dbl \<Rightarrow> particle \<Rightarrow> cache \<Rightarrow> darray \<Rightarrow> particle \<times> cache \<times> darray" where
  "collision_absorb ex ar p_absorb p c tally =
     (let p1 = p\<lparr>p_weight := p_weight p * (Fin 1 - p_absorb)\<rparr>
      in if p_energy p1 < MIN_ENERGY_OF_INTEREST ex
         then (p1\<lparr>p_dead := 1\<rparr>,
               c\<lparr>c_energy_deposition := Fin 0\<rparr>,
               update_tallies ar (c_energy_deposition c) tally p1)
         else (p1, c, tally))"

text \<open>The elastic scattering branch of \<^verbatim>\<open>collision_event\<close> (lines 373-400).\<close>

definition collision_scatter :: "externals \<Rightarrow> dbl \<Rightarrow> particle \<Rightarrow> particle" where
  "collision_scatter ex rn1 p =
     (let mu_cm = Fin 1 - Fin 2 * rn1;
          e_new = p_energy p *
            (MASS_NO ex * MASS_NO ex + Fin 2 * MASS_NO ex * mu_cm + Fin 1) /
            ((MASS_NO ex + Fin 1) * (MASS_NO ex + Fin 1));
          cos_theta =
            Fin (1/2) * (MASS_NO ex + Fin 1) * dsqrt (e_new / p_energy p) -
            Fin (1/2) * (MASS_NO ex - Fin 1) * dsqrt (p_energy p / e_new);
          sin_theta = dsqrt (Fin 1 - cos_theta * cos_theta);
          omega_x_new = (p_omega_x p * cos_theta - p_omega_y p * sin_theta);
          omega_y_new = (p_omega_x p * sin_theta + p_omega_y p * cos_theta)
      in p\<lparr>p_omega_x := omega_x_new, p_omega_y := omega_y_new, p_energy := e_new\<rparr>)"

text \<open>
  The first part of \<^verbatim>\<open>collision_event\<close> (lines 336-401): the energy deposited on the
  way, the move to the collision site, and the absorption or the scattering, chosen by
  the first random number.
\<close>

definition collision_interact ::
  "externals \<Rightarrow> args \<Rightarrow> dbl \<Rightarrow> dbl \<Rightarrow> dbl \<Rightarrow> particle \<Rightarrow> cache \<Rightarrow> darray
     \<Rightarrow> particle \<times> cache \<times> darray" where
  "collision_interact ex ar distance_to_collision rn0 rn1 p c tally =
     (let c1 = c\<lparr>c_energy_deposition := c_energy_deposition c +
                 calculate_energy_deposition ex distance_to_collision (c_number_density c)
                   (c_microscopic_cs_absorb c)
                   (c_microscopic_cs_scatter c + c_microscopic_cs_absorb c) p\<rparr>;
          p1 = p\<lparr>p_x := p_x p + distance_to_collision * p_omega_x p,
                 p_y := p_y p + distance_to_collision * p_omega_y p\<rparr>;
          p_absorb = c_macroscopic_cs_absorb c1 /
                     (c_macroscopic_cs_scatter c1 + c_macroscopic_cs_absorb c1)
      in if rn0 < p_absorb
         then collision_absorb ex ar p_absorb p1 c1 tally
         else (collision_scatter ex rn1 p1, c1, tally))"

text \<open>
  \<^verbatim>\<open>collision_event\<close> (lines 323-421): the interaction, and for a particle that is
  still alive the new cross sections, number of mean free paths, time to census and
  speed. It never writes through its argument \<^verbatim>\<open>found\<close>, which therefore does not
  appear.
\<close>

definition collision_event ::
  "externals \<Rightarrow> args \<Rightarrow> nat \<Rightarrow> dbl \<Rightarrow> particle \<Rightarrow> cache \<Rightarrow> darray
     \<Rightarrow> (error + particle \<times> cache \<times> darray) option" where
  "collision_event ex ar counter distance_to_collision p c tally =
     (let (rn0, rn1, rn2, rn3) =
             generate_random_numbers ex (c_key c) (a_master_key ar) counter;
          (p2, c2, tally2) =
             collision_interact ex ar distance_to_collision rn0 rn1 p c tally
      in if p_dead p2 \<noteq> 0 then Some (Inr (p2, c2, tally2))
         else
           (case microscopic_cs_for_energy_binary (a_cs_scatter_table ar) (p_energy p2) of
              None \<Rightarrow> None
            | Some (Inl e) \<Rightarrow> Some (Inl e)
            | Some (Inr (cs_scatter, scatter_index)) \<Rightarrow>
           (case microscopic_cs_for_energy_binary (a_cs_absorb_table ar) (p_energy p2) of
              None \<Rightarrow> None
            | Some (Inl e) \<Rightarrow> Some (Inl e)
            | Some (Inr (cs_absorb, absorb_index)) \<Rightarrow>
                (let number_density = c_local_density c2 * AVOGADROS ex / MOLAR_MASS ex;
                     macro_scatter = number_density * cs_scatter * BARNS ex;
                     macro_absorb = number_density * cs_absorb * BARNS ex
                 in Some (Inr
                      (p2\<lparr>p_mfp_to_collision := - dlog rn3 / macro_scatter,
                          p_dt_to_census := p_dt_to_census p2 - distance_to_collision / c_speed c2\<rparr>,
                       c2\<lparr>c_microscopic_cs_scatter := cs_scatter,
                          c_scatter_cs_index := scatter_index,
                          c_microscopic_cs_absorb := cs_absorb,
                          c_absorb_cs_index := absorb_index,
                          c_number_density := number_density,
                          c_macroscopic_cs_scatter := macro_scatter,
                          c_macroscopic_cs_absorb := macro_absorb,
                          c_speed := dsqrt ((Fin 2 * p_energy p2 * eV_TO_J ex) / PARTICLE_MASS ex)\<rparr>,
                       tally2))))))"

text \<open>
  The three statements \<^verbatim>\<open>facet_event\<close> runs on the crossed axis (lines 456-458 for x,
  461-463 for y): the direction cosine, then the cell index twice.
\<close>

definition facet_reflect_or_step :: "int \<Rightarrow> dbl \<Rightarrow> int \<Rightarrow> dbl \<times> int" where
  "facet_reflect_or_step global_n omega cell =
     (let omega1 = (if global_n - 1 \<le> cell \<or> cell \<le> 0 then - omega else omega);
          cell1 = cell + (if Fin 0 < omega1 \<and> cell < global_n - 1 then 1 else 0);
          cell2 = cell1 + (if omega1 < Fin 0 \<and> 0 < cell1 then - 1 else 0)
      in (omega1, cell2))"

text \<open>\<^verbatim>\<open>facet_event\<close> (lines 424-473).\<close>

definition facet_event ::
  "externals \<Rightarrow> args \<Rightarrow> particle \<Rightarrow> cache \<Rightarrow> darray \<Rightarrow> particle \<times> cache \<times> darray" where
  "facet_event ex ar p c tally =
     (let deposited = c_energy_deposition c +
            calculate_energy_deposition ex (c_distance_to_facet c) (c_number_density c)
              (c_microscopic_cs_absorb c)
              (c_microscopic_cs_scatter c + c_microscopic_cs_absorb c) p;
          tally1 = update_tallies ar deposited tally p;
          p1 = p\<lparr>p_mfp_to_collision :=
                   p_mfp_to_collision p - (c_distance_to_facet c / c_cell_mfp c),
                 p_dt_to_census :=
                   p_dt_to_census p - (c_distance_to_facet c / c_speed c)\<rparr>;
          p2 = p1\<lparr>p_x := p_x p1 + c_distance_to_facet c * p_omega_x p1,
                  p_y := p_y p1 + c_distance_to_facet c * p_omega_y p1\<rparr>;
          p3 = (if c_x_facet c \<noteq> 0
                then (let (omega, cell) =
                            facet_reflect_or_step (a_global_nx ar) (p_omega_x p2) (p_cellx p2)
                      in p2\<lparr>p_omega_x := omega, p_cellx := cell\<rparr>)
                else (let (omega, cell) =
                            facet_reflect_or_step (a_global_ny ar) (p_omega_y p2) (p_celly p2)
                      in p2\<lparr>p_omega_y := omega, p_celly := cell\<rparr>));
          cellx = p_cellx p3 - a_x_off ar;
          celly = p_celly p3 - a_y_off ar;
          local_density = a_density ar (celly * a_nx ar + cellx);
          number_density = local_density * AVOGADROS ex / MOLAR_MASS ex
      in (p3,
          c\<lparr>c_energy_deposition := Fin 0,
            c_local_density := local_density,
            c_number_density := number_density,
            c_macroscopic_cs_scatter := number_density * c_microscopic_cs_scatter c * BARNS ex,
            c_macroscopic_cs_absorb := number_density * c_microscopic_cs_absorb c * BARNS ex\<rparr>,
          tally1))"

text \<open>\<^verbatim>\<open>census_event\<close> (lines 476-499).\<close>

definition census_event ::
  "externals \<Rightarrow> args \<Rightarrow> dbl \<Rightarrow> dbl \<Rightarrow> particle \<Rightarrow> cache \<Rightarrow> darray
     \<Rightarrow> particle \<times> cache \<times> darray" where
  "census_event ex ar distance_to_census cell_mfp p c tally =
     (let p1 = p\<lparr>p_x := p_x p + distance_to_census * p_omega_x p,
                 p_y := p_y p + distance_to_census * p_omega_y p,
                 p_mfp_to_collision := p_mfp_to_collision p - (distance_to_census / cell_mfp)\<rparr>;
          deposited = c_energy_deposition c +
            calculate_energy_deposition ex distance_to_census (c_number_density c)
              (c_microscopic_cs_absorb c)
              (c_microscopic_cs_scatter c + c_microscopic_cs_absorb c) p1;
          tally1 = update_tallies ar deposited tally p1
      in (p1\<lparr>p_dt_to_census := Fin 0\<rparr>, c\<lparr>c_energy_deposition := deposited\<rparr>, tally1))"

section \<open>Block event loop: \<^verbatim>\<open>handle_particles\<close>\<close>

type_synonym lane = "particle \<times> cache"

text \<open>The choice of the next event among the three distances (lines 198-208).\<close>

definition select_event :: "dbl \<Rightarrow> dbl \<Rightarrow> dbl \<Rightarrow> event" where
  "select_event distance_to_collision distance_to_facet distance_to_census =
     (if distance_to_collision < distance_to_facet \<and>
         distance_to_collision < distance_to_census
      then PARTICLE_COLLISION
      else if distance_to_facet < distance_to_census
      then PARTICLE_FACET
      else PARTICLE_CENSUS)"

text \<open>One lane of the classification loop (lines 178-209).\<close>

definition calc_event :: "externals \<Rightarrow> args \<Rightarrow> particle \<Rightarrow> cache \<Rightarrow> cache" where
  "calc_event ex ar p c =
     (if p_dead p \<noteq> 0 then c\<lparr>c_next_event := PARTICLE_DEAD\<rparr>
      else
        (let cell_mfp = Fin 1 / (c_macroscopic_cs_scatter c + c_macroscopic_cs_absorb c);
             (distance_to_facet, x_facet) =
                calc_distance_to_facet (OPEN_BOUND_CORRECTION ex) (a_global_nx ar)
                  (p_x p) (p_y p) (a_pad ar) (a_x_off ar) (a_y_off ar)
                  (p_omega_x p) (p_omega_y p) (c_speed c) (p_cellx p) (p_celly p)
                  (a_edgex ar) (a_edgey ar);
             distance_to_collision = p_mfp_to_collision p * cell_mfp;
             distance_to_census = c_speed c * p_dt_to_census p
         in c\<lparr>c_cell_mfp := cell_mfp,
              c_distance_to_facet := distance_to_facet,
              c_x_facet := x_facet,
              c_next_event :=
                select_event distance_to_collision distance_to_facet distance_to_census\<rparr>))"

text \<open>One lane of the loop that initialises the cached data (lines 122-163).\<close>

definition init_lane ::
  "externals \<Rightarrow> args \<Rightarrow> nat \<Rightarrow> nat \<Rightarrow> nat \<Rightarrow> particle \<Rightarrow> cache \<Rightarrow> (error + lane) option" where
  "init_lane ex ar bid counter ip p c =
     (if p_dead p \<noteq> 0 then Some (Inr (p, c))
      else
        (let cellx = p_cellx p - a_x_off ar + a_pad ar;
             celly = p_celly p - a_y_off ar + a_pad ar;
             local_density = a_density ar (celly * (a_nx ar + 2 * a_pad ar) + cellx)
         in case microscopic_cs_for_energy_binary (a_cs_scatter_table ar) (p_energy p) of
              None \<Rightarrow> None
            | Some (Inl e) \<Rightarrow> Some (Inl e)
            | Some (Inr (cs_scatter, scatter_index)) \<Rightarrow>
           (case microscopic_cs_for_energy_binary (a_cs_absorb_table ar) (p_energy p) of
              None \<Rightarrow> None
            | Some (Inl e) \<Rightarrow> Some (Inl e)
            | Some (Inr (cs_absorb, absorb_index)) \<Rightarrow>
                (let number_density = local_density * AVOGADROS ex / MOLAR_MASS ex;
                     macro_scatter = number_density * cs_scatter * BARNS ex;
                     macro_absorb = number_density * cs_absorb * BARNS ex;
                     pid = bid * nat (BLOCK_SIZE ex) + ip;
                     c1 = c\<lparr>c_x_facet := 0,
                            c_absorb_cs_index := absorb_index,
                            c_scatter_cs_index := scatter_index,
                            c_cell_mfp := Fin 0,
                            c_energy_deposition := Fin 0,
                            c_local_density := local_density,
                            c_microscopic_cs_scatter := cs_scatter,
                            c_microscopic_cs_absorb := cs_absorb,
                            c_number_density := number_density,
                            c_macroscopic_cs_scatter := macro_scatter,
                            c_macroscopic_cs_absorb := macro_absorb,
                            c_speed := dsqrt ((Fin 2 * p_energy p * eV_TO_J ex) / PARTICLE_MASS ex),
                            c_key := pid\<rparr>
                 in if a_initial ar \<noteq> 0
                    then (let (rn0, rn1, rn2, rn3) =
                                generate_random_numbers ex pid (a_master_key ar) counter
                          in Some (Inr (p\<lparr>p_dt_to_census := a_dt ar,
                                          p_mfp_to_collision := - dlog rn0 / macro_scatter\<rparr>, c1)))
                    else Some (Inr (p, c1))))))"

fun init_lanes ::
  "externals \<Rightarrow> args \<Rightarrow> nat \<Rightarrow> nat \<Rightarrow> nat \<Rightarrow> lane list \<Rightarrow> (error + lane list) option" where
  "init_lanes ex ar bid counter ip [] = Some (Inr [])"
| "init_lanes ex ar bid counter ip ((p, c) # ls) =
     (case init_lane ex ar bid counter ip p c of
        None \<Rightarrow> None
      | Some (Inl e) \<Rightarrow> Some (Inl e)
      | Some (Inr l) \<Rightarrow>
          (case init_lanes ex ar bid counter (ip + 1) ls of
             None \<Rightarrow> None
           | Some (Inl e) \<Rightarrow> Some (Inl e)
           | Some (Inr ls') \<Rightarrow> Some (Inr (l # ls'))))"

text \<open>The classification loop over the lanes of the block.\<close>

definition calc_events :: "externals \<Rightarrow> args \<Rightarrow> lane list \<Rightarrow> lane list" where
  "calc_events ex ar ls = map (\<lambda>(p, c). (p, calc_event ex ar p c)) ls"

definition count_events :: "event \<Rightarrow> lane list \<Rightarrow> nat" where
  "count_events e ls = length (filter (\<lambda>(p, c). c_next_event c = e) ls)"

definition ncompleted :: "lane list \<Rightarrow> nat" where
  "ncompleted ls = count_events PARTICLE_DEAD ls + count_events PARTICLE_CENSUS ls"

text \<open>The collision loop over the lanes (lines 222-240).\<close>

fun collision_pass ::
  "externals \<Rightarrow> args \<Rightarrow> nat \<Rightarrow> lane list \<Rightarrow> darray \<Rightarrow> (error + lane list \<times> darray) option" where
  "collision_pass ex ar counter [] tally = Some (Inr ([], tally))"
| "collision_pass ex ar counter ((p, c) # ls) tally =
     (if c_next_event c \<noteq> PARTICLE_COLLISION
      then (case collision_pass ex ar counter ls tally of
              None \<Rightarrow> None
            | Some (Inl e) \<Rightarrow> Some (Inl e)
            | Some (Inr (ls', tally')) \<Rightarrow> Some (Inr ((p, c) # ls', tally')))
      else (let distance_to_collision = p_mfp_to_collision p * c_cell_mfp c
            in case collision_event ex ar counter distance_to_collision p c tally of
                 None \<Rightarrow> None
               | Some (Inl e) \<Rightarrow> Some (Inl e)
               | Some (Inr (p', c', tally1)) \<Rightarrow>
                   (case collision_pass ex ar counter ls tally1 of
                      None \<Rightarrow> None
                    | Some (Inl e) \<Rightarrow> Some (Inl e)
                    | Some (Inr (ls', tally')) \<Rightarrow> Some (Inr ((p', c') # ls', tally')))))"

text \<open>
  The check after the collision loop (lines 246-251). Its condition is \<^verbatim>\<open>!found\<close>, and
  \<^verbatim>\<open>found\<close> is the array \<^verbatim>\<open>int found[BLOCK_SIZE]\<close> declared in the loop: in a condition
  an array stands for the address of its first entry, which is never null. The entries
  are never written; \<^verbatim>\<open>None\<close> is an entry that holds no value yet.
\<close>

definition array_is_null :: "'a list \<Rightarrow> bool" where
  "array_is_null a = False"

definition check_lookups :: "externals \<Rightarrow> int option list \<Rightarrow> error + unit" where
  "check_lookups ex found =
     (if list_ex (\<lambda>ip. array_is_null found) [0 .. BLOCK_SIZE ex - 1]
      then Inl Terminated else Inr ())"

text \<open>The facet loop over the lanes (lines 276-289).\<close>

fun facet_pass :: "externals \<Rightarrow> args \<Rightarrow> lane list \<Rightarrow> darray \<Rightarrow> lane list \<times> darray" where
  "facet_pass ex ar [] tally = ([], tally)"
| "facet_pass ex ar ((p, c) # ls) tally =
     (if c_next_event c \<noteq> PARTICLE_FACET
      then (let (ls', tally') = facet_pass ex ar ls tally in ((p, c) # ls', tally'))
      else (let (p', c', tally1) = facet_event ex ar p c tally;
                (ls', tally') = facet_pass ex ar ls tally1
            in ((p', c') # ls', tally')))"

text \<open>The census loop that follows the event loop (lines 295-308).\<close>

fun census_pass :: "externals \<Rightarrow> args \<Rightarrow> lane list \<Rightarrow> darray \<Rightarrow> lane list \<times> darray" where
  "census_pass ex ar [] tally = ([], tally)"
| "census_pass ex ar ((p, c) # ls) tally =
     (if c_next_event c \<noteq> PARTICLE_CENSUS
      then (let (ls', tally') = census_pass ex ar ls tally in ((p, c) # ls', tally'))
      else (let distance_to_census = c_speed c * p_dt_to_census p;
                (p', c', tally1) =
                   census_event ex ar distance_to_census (c_cell_mfp c) p c tally;
                (ls', tally') = census_pass ex ar ls tally1
            in ((p', c') # ls', tally')))"

text \<open>
  The state of the \<^verbatim>\<open>while (1)\<close> loop over one block: its lanes, the tally, the counter
  of the random number generator and the thread's event counts.
\<close>

record loop_state =
  l_lanes :: "lane list"
  l_tally :: darray
  l_counter :: nat
  l_nfacets :: nat
  l_ncollisions :: nat

text \<open>The head of an iteration: the classification and the counts (lines 171-213).\<close>

definition loop_classify :: "externals \<Rightarrow> args \<Rightarrow> loop_state \<Rightarrow> loop_state" where
  "loop_classify ex ar st =
     (let ls = calc_events ex ar (l_lanes st)
      in st\<lparr>l_lanes := ls,
            l_nfacets := l_nfacets st + count_events PARTICLE_FACET ls,
            l_ncollisions := l_ncollisions st + count_events PARTICLE_COLLISION ls\<rparr>)"

definition loop_exit :: "externals \<Rightarrow> loop_state \<Rightarrow> bool" where
  "loop_exit ex st = (int (ncompleted (l_lanes st)) = BLOCK_SIZE ex)"

text \<open>The rest of an iteration that does not leave the loop (lines 219-290).\<close>

definition loop_body :: "externals \<Rightarrow> args \<Rightarrow> loop_state \<Rightarrow> (error + loop_state) option" where
  "loop_body ex ar st =
     (let found = replicate (nat (BLOCK_SIZE ex)) None
      in case collision_pass ex ar (l_counter st) (l_lanes st) (l_tally st) of
           None \<Rightarrow> None
         | Some (Inl e) \<Rightarrow> Some (Inl e)
         | Some (Inr (ls, tally)) \<Rightarrow>
             (case check_lookups ex found of
                Inl e \<Rightarrow> Some (Inl e)
              | Inr _ \<Rightarrow>
                  (let (ls', tally') = facet_pass ex ar ls tally
                   in Some (Inr (st\<lparr>l_lanes := ls', l_tally := tally',
                                    l_counter := l_counter st + 1\<rparr>)))))"

partial_function (option) event_loop ::
  "externals \<Rightarrow> args \<Rightarrow> loop_state \<Rightarrow> (error + loop_state) option" where
  "event_loop ex ar st =
     (let st1 = loop_classify ex ar st
      in if loop_exit ex st1 then Some (Inr st1)
         else (case loop_body ex ar st1 of
                 None \<Rightarrow> None
               | Some (Inl e) \<Rightarrow> Some (Inl e)
               | Some (Inr st2) \<Rightarrow> event_loop ex ar st2))"

text \<open>
  The states at the head of the \<^verbatim>\<open>while (1)\<close> loop that starts in \<^verbatim>\<open>st0\<close>: the one
  the loop is entered with, and the one every iteration that does not leave the loop
  ends in.
\<close>

inductive loop_head :: "externals \<Rightarrow> args \<Rightarrow> loop_state \<Rightarrow> loop_state \<Rightarrow> bool"
  for ex :: externals and ar :: args and st0 :: loop_state where
  head_first: "loop_head ex ar st0 st0"
| head_next: "loop_head ex ar st0 st \<Longrightarrow> \<not> loop_exit ex (loop_classify ex ar st) \<Longrightarrow>
     loop_body ex ar (loop_classify ex ar st) = Some (Inr st') \<Longrightarrow> loop_head ex ar st0 st'"

text \<open>
  The body of the loop over the blocks of a thread (lines 100-310), for the block
  \<^verbatim>\<open>bid\<close>. \<^verbatim>\<open>stack\<close> holds the thread's cached arrays, which keep their contents from
  one block to the next.
\<close>

definition handle_block ::
  "externals \<Rightarrow> args \<Rightarrow> nat \<Rightarrow> cache list \<Rightarrow> particle list \<Rightarrow> darray \<Rightarrow> nat \<Rightarrow> nat
     \<Rightarrow> (error + particle list \<times> cache list \<times> darray \<times> nat \<times> nat) option" where
  "handle_block ex ar bid stack block tally nfacets ncollisions =
     (case init_lanes ex ar bid 0 0 (zip block stack) of
        None \<Rightarrow> None
      | Some (Inl e) \<Rightarrow> Some (Inl e)
      | Some (Inr ls0) \<Rightarrow>
          (case event_loop ex ar
                  \<lparr>l_lanes = ls0, l_tally = tally, l_counter = 1,
                   l_nfacets = nfacets, l_ncollisions = ncollisions\<rparr> of
             None \<Rightarrow> None
           | Some (Inl e) \<Rightarrow> Some (Inl e)
           | Some (Inr st) \<Rightarrow>
               (let (ls, tally') = census_pass ex ar (l_lanes st) (l_tally st)
                in Some (Inr (map fst ls, map snd ls, tally',
                              l_nfacets st, l_ncollisions st)))))"

text \<open>
  The blocks of one thread (lines 78-81 and 100-102): \<^verbatim>\<open>nb_per_thread\<close> blocks from
  \<^verbatim>\<open>thread_block_off = tid * nb_per_thread\<close> on.
\<close>

definition thread_blocks :: "int \<Rightarrow> int \<Rightarrow> int list" where
  "thread_blocks nb_per_thread tid =
     (let thread_block_off = tid * nb_per_thread
      in map (\<lambda>b. thread_block_off + b) [0 .. nb_per_thread - 1])"

fun thread_run ::
  "externals \<Rightarrow> args \<Rightarrow> int list \<Rightarrow> cache list \<Rightarrow> particle list list \<Rightarrow> darray \<Rightarrow> nat \<Rightarrow> nat
     \<Rightarrow> (error + particle list list \<times> darray \<times> nat \<times> nat) option" where
  "thread_run ex ar [] stack particles tally nfacets ncollisions =
     Some (Inr (particles, tally, nfacets, ncollisions))"
| "thread_run ex ar (bid # bids) stack particles tally nfacets ncollisions =
     (if \<not> (0 \<le> bid \<and> bid < int (length particles)) then Some (Inl OutOfBounds)
      else case handle_block ex ar (nat bid) stack (particles ! nat bid) tally
                  nfacets ncollisions of
             None \<Rightarrow> None
           | Some (Inl e) \<Rightarrow> Some (Inl e)
           | Some (Inr (block', stack', tally', nfacets', ncollisions')) \<Rightarrow>
               thread_run ex ar bids stack' (particles[nat bid := block']) tally'
                 nfacets' ncollisions')"

text \<open>
  The blocks the parallel region visits (lines 62-64): thread \<^verbatim>\<open>tid\<close> of \<^verbatim>\<open>nthreads\<close>
  takes \<^verbatim>\<open>thread_blocks nb_per_thread tid\<close>.
\<close>

definition nb_per_thread :: "externals \<Rightarrow> int \<Rightarrow> int \<Rightarrow> int" where
  "nb_per_thread ex nthreads nparticles_to_process =
     (let nb = nparticles_to_process sdiv BLOCK_SIZE ex
      in nb sdiv nthreads)"

definition visited_blocks :: "externals \<Rightarrow> int \<Rightarrow> int \<Rightarrow> int list" where
  "visited_blocks ex nthreads nparticles_to_process =
     concat (map (thread_blocks (nb_per_thread ex nthreads nparticles_to_process))
               [0 .. nthreads - 1])"

text \<open>
  \<^verbatim>\<open>handle_particles\<close> (lines 44-320). The threads work on disjoint blocks and share
  only the tally, to which they add; they are run one after the other. Every thread
  starts from the same contents \<^verbatim>\<open>stack\<close> of its arrays, which the code leaves
  uninitialised.
\<close>

fun threads_run ::
  "externals \<Rightarrow> args \<Rightarrow> int \<Rightarrow> int list \<Rightarrow> cache list \<Rightarrow> particle list list \<Rightarrow> darray \<Rightarrow> nat \<Rightarrow> nat
     \<Rightarrow> (error + particle list list \<times> darray \<times> nat \<times> nat) option" where
  "threads_run ex ar nbpt [] stack particles tally nfacets ncollisions =
     Some (Inr (particles, tally, nfacets, ncollisions))"
| "threads_run ex ar nbpt (tid # tids) stack particles tally nfacets ncollisions =
     (case thread_run ex ar (thread_blocks nbpt tid) stack particles tally 0 0 of
        None \<Rightarrow> None
      | Some (Inl e) \<Rightarrow> Some (Inl e)
      | Some (Inr (particles', tally', nf, nc)) \<Rightarrow>
          threads_run ex ar nbpt tids stack particles' tally' (nfacets + nf) (ncollisions + nc))"

definition handle_particles ::
  "externals \<Rightarrow> args \<Rightarrow> int \<Rightarrow> int \<Rightarrow> cache list \<Rightarrow> particle list list \<Rightarrow> darray \<Rightarrow> nat \<Rightarrow> nat
     \<Rightarrow> (error + particle list list \<times> darray \<times> nat \<times> nat) option" where
  "handle_particles ex ar nthreads nparticles_to_process stack particles tally
       facets collisions =
     (case threads_run ex ar (nb_per_thread ex nthreads nparticles_to_process)
             [0 .. nthreads - 1] stack particles tally 0 0 of
        None \<Rightarrow> None
      | Some (Inl e) \<Rightarrow> Some (Inl e)
      | Some (Inr (particles', tally', nfacets, ncollisions)) \<Rightarrow>
          Some (Inr (particles', tally', facets + nfacets, collisions + ncollisions)))"

text \<open>\<^verbatim>\<open>solve_transport_2d\<close> (lines 20-41): it passes \<^verbatim>\<open>initial = 1\<close>.\<close>

definition solve_transport_2d ::
  "externals \<Rightarrow> args \<Rightarrow> int \<Rightarrow> int \<Rightarrow> cache list \<Rightarrow> particle list list \<Rightarrow> darray \<Rightarrow> nat \<Rightarrow> nat
     \<Rightarrow> (error + particle list list \<times> darray \<times> nat \<times> nat) option" where
  "solve_transport_2d ex ar nthreads nparticles stack particles tally
       facet_events collision_events =
     (if nparticles = 0
      then Some (Inr (particles, tally, facet_events, collision_events))
      else handle_particles ex (ar\<lparr>a_initial := 1\<rparr>) nthreads nparticles stack particles
             tally facet_events collision_events)"

section \<open>Particle injection: \<^verbatim>\<open>inject_particles\<close>\<close>

text \<open>
  The search for the cell that holds a coordinate (lines 701-714): the first cell of the
  local mesh whose edges enclose it, and cell 0 when there is none.
\<close>

definition locate_cell :: "darray \<Rightarrow> int \<Rightarrow> int \<Rightarrow> int \<Rightarrow> dbl \<Rightarrow> int" where
  "locate_cell edge pad off local_n v =
     (case find (\<lambda>i. edge (i + pad) \<le> v \<and> v < edge (i + pad + 1)) [0 .. local_n - 1] of
        None \<Rightarrow> 0
      | Some i \<Rightarrow> off + i)"

text \<open>The body of the loop over the lanes of a block (lines 689-734), for particle \<^verbatim>\<open>pid\<close>.\<close>

definition inject_particle ::
  "externals \<Rightarrow> int \<Rightarrow> int \<Rightarrow> int \<Rightarrow> dbl \<Rightarrow> dbl \<Rightarrow> dbl \<Rightarrow> dbl \<Rightarrow> int \<Rightarrow> int \<Rightarrow> dbl
     \<Rightarrow> darray \<Rightarrow> darray \<Rightarrow> dbl \<Rightarrow> nat \<Rightarrow> particle" where
  "inject_particle ex local_nx local_ny pad local_particle_left_off local_particle_bottom_off
       local_particle_width local_particle_height x_off y_off dt edgex edgey
       initial_energy pid =
     (let (rn0, rn1, rn2, rn3) = generate_random_numbers ex pid 0 0;
          x = local_particle_left_off + rn0 * local_particle_width;
          y = local_particle_bottom_off + rn1 * local_particle_height;
          cellx = locate_cell edgex pad x_off local_nx x;
          celly = locate_cell edgey pad y_off local_ny y;
          theta = Fin 2 * Fin pi * rn2
      in \<lparr>p_x = x, p_y = y,
          p_omega_x = dcos theta, p_omega_y = dsin theta,
          p_energy = initial_energy,
          p_weight = Fin 1,
          p_dt_to_census = dt,
          p_mfp_to_collision = Fin 0,
          p_cellx = cellx, p_celly = celly,
          p_dead = 0\<rparr>)"

text \<open>
  \<^verbatim>\<open>inject_particles\<close> (lines 663-738). The allocation is taken to succeed.
\<close>

definition inject_particles ::
  "externals \<Rightarrow> int \<Rightarrow> int \<Rightarrow> int \<Rightarrow> int \<Rightarrow> dbl \<Rightarrow> dbl \<Rightarrow> dbl \<Rightarrow> dbl \<Rightarrow> int \<Rightarrow> int \<Rightarrow> dbl
     \<Rightarrow> darray \<Rightarrow> darray \<Rightarrow> dbl \<Rightarrow> error + particle list list" where
  "inject_particles ex nparticles local_nx local_ny pad local_particle_left_off
       local_particle_bottom_off local_particle_width local_particle_height x_off y_off dt
       edgex edgey initial_energy =
     (if nparticles smod BLOCK_SIZE ex \<noteq> 0 then Inl Terminated
      else
        (let nb = nparticles sdiv BLOCK_SIZE ex
         in Inr (map (\<lambda>b. map (\<lambda>k.
                   inject_particle ex local_nx local_ny pad local_particle_left_off
                     local_particle_bottom_off local_particle_width local_particle_height
                     x_off y_off dt edgex edgey initial_energy (nat (b * BLOCK_SIZE ex + k)))
                   [0 .. BLOCK_SIZE ex - 1])
                 [0 .. nb - 1])))"

section \<open>Well-formed inputs\<close>

text \<open>
  A double that is a positive number, one that is a number and not negative, and one in
  the interval [0, 1), where the random numbers lie.
\<close>

fun pos :: "dbl \<Rightarrow> bool" where
  "pos (Fin r) = (0 < r)"
| "pos _ = False"

fun nonneg :: "dbl \<Rightarrow> bool" where
  "nonneg (Fin r) = (0 \<le> r)"
| "nonneg _ = False"

fun unit_interval :: "dbl \<Rightarrow> bool" where
  "unit_interval (Fin r) = (0 \<le> r \<and> r < 1)"
| "unit_interval _ = False"

definition rng_ok :: "externals \<Rightarrow> bool" where
  "rng_ok ex =
     (\<forall>pkey master_key counter.
        case random_doubles ex pkey master_key counter of
          (rn0, rn1, rn2, rn3) \<Rightarrow>
            unit_interval rn0 \<and> unit_interval rn1 \<and> unit_interval rn2 \<and> unit_interval rn3)"

text \<open>
  The inputs of a time step that the invariants of the event loop rest on: positive
  physical constants, random numbers in [0, 1), a positive density in every cell,
  tables with finite keys and positive (for absorption, non-negative) values, a time
  step that is not negative, and \<^verbatim>\<open>initial = 1\<close> as \<^verbatim>\<open>solve_transport_2d\<close> passes it.
\<close>

fun is_fin :: "dbl \<Rightarrow> bool" where
  "is_fin (Fin r) = True"
| "is_fin _ = False"

definition table_ok :: "(dbl \<Rightarrow> bool) \<Rightarrow> CrossSection \<Rightarrow> bool" where
  "table_ok v cs = (list_all is_fin (cs_keys cs) \<and> list_all v (cs_values cs))"

definition env_ok :: "externals \<Rightarrow> args \<Rightarrow> bool" where
  "env_ok ex ar =
     (pos (AVOGADROS ex) \<and> pos (MOLAR_MASS ex) \<and> pos (BARNS ex) \<and> pos (eV_TO_J ex) \<and>
      pos (PARTICLE_MASS ex) \<and> pos (MASS_NO ex) \<and> rng_ok ex \<and>
      (\<forall>i. pos (a_density ar i)) \<and>
      table_ok pos (a_cs_scatter_table ar) \<and> table_ok nonneg (a_cs_absorb_table ar) \<and>
      Fin 0 \<le> a_dt ar \<and> a_initial ar = 1)"

text \<open>
  What holds of a lane at the head of the event loop, and what the classification adds
  for the lane of a collision or a facet crossing.
\<close>

definition lane_ok :: "lane \<Rightarrow> bool" where
  "lane_ok l =
     (case l of (p, c) \<Rightarrow>
        p_dead p \<noteq> 0 \<or>
        (pos (p_energy p) \<and> pos (c_speed c) \<and> pos (c_local_density c) \<and>
         pos (c_microscopic_cs_scatter c) \<and> nonneg (c_microscopic_cs_absorb c) \<and>
         pos (c_macroscopic_cs_scatter c) \<and> nonneg (c_macroscopic_cs_absorb c) \<and>
         Fin 0 \<le> p_mfp_to_collision p \<and> Fin 0 \<le> p_dt_to_census p))"

definition selected :: "lane \<Rightarrow> bool" where
  "selected l =
     (case l of (p, c) \<Rightarrow>
        (c_next_event c = PARTICLE_COLLISION \<longrightarrow>
           p_dead p = 0 \<and>
           p_mfp_to_collision p * c_cell_mfp c < c_speed c * p_dt_to_census p) \<and>
        (c_next_event c = PARTICLE_FACET \<longrightarrow>
           p_dead p = 0 \<and>
           c_cell_mfp c = Fin 1 / (c_macroscopic_cs_scatter c + c_macroscopic_cs_absorb c) \<and>
           \<not> (p_mfp_to_collision p * c_cell_mfp c < c_distance_to_facet c \<and>
              p_mfp_to_collision p * c_cell_mfp c < c_speed c * p_dt_to_census p) \<and>
           c_distance_to_facet c < c_speed c * p_dt_to_census p))"

definition facet_ready :: "lane \<Rightarrow> bool" where
  "facet_ready l = (lane_ok l \<and> (c_next_event (snd l) = PARTICLE_FACET \<longrightarrow> selected l))"

section \<open>Concrete inputs\<close>

text \<open>
  A small mesh, table and particle on which the definitions can be evaluated: cells of
  width one, and a particle in the middle of cell (0, 0) of a 4 x 4 mesh that moves along
  x. All the values are binary fractions, so that the evaluations below are as exact
  in double precision as they are here.
\<close>

definition unit_edges :: darray where
  "unit_edges i = Fin (real_of_int i)"

definition unit_density :: darray where
  "unit_density i = Fin 1"

definition zero_tally :: darray where
  "zero_tally i = Fin 0"

definition demo_table :: CrossSection where
  "demo_table = \<lparr>cs_keys = [Fin 1, Fin 2, Fin 4], cs_values = [Fin 1, Fin 1, Fin 1], nentries = 3\<rparr>"

definition demo_externals :: externals where
  "demo_externals =
     \<lparr>BLOCK_SIZE = 1,
      OPEN_BOUND_CORRECTION = Fin (1 / 10 ^ 14),
      AVOGADROS = Fin 2,
      MOLAR_MASS = Fin 2,
      BARNS = Fin 1,
      eV_TO_J = Fin 1,
      PARTICLE_MASS = Fin 4,
      MASS_NO = Fin 2,
      MIN_ENERGY_OF_INTEREST = Fin 1,
      random_doubles = (\<lambda>pkey master_key counter. (Fin (1/2), Fin (1/2), Fin (1/2), Fin (1/2)))\<rparr>"

definition demo_args :: args where
  "demo_args =
     \<lparr>a_global_nx = 4, a_global_ny = 4, a_nx = 4, a_ny = 4, a_pad = 0,
      a_x_off = 0, a_y_off = 0, a_master_key = 0, a_initial = 1, a_dt = Fin 2,
      a_ntotal_particles = 1, a_density = unit_density,
      a_edgex = unit_edges, a_edgey = unit_edges,
      a_cs_scatter_table = demo_table, a_cs_absorb_table = demo_table\<rparr>"

definition demo_particle :: particle where
  "demo_particle =
     \<lparr>p_x = Fin (1/2), p_y = Fin (1/2), p_omega_x = Fin 1, p_omega_y = Fin 0,
      p_energy = Fin 2, p_weight = Fin 1, p_dt_to_census = Fin 2,
      p_mfp_to_collision = Fin 1, p_cellx = 0, p_celly = 0, p_dead = 0\<rparr>"

definition demo_cache :: cache where
  "demo_cache =
     \<lparr>c_x_facet = 1, c_absorb_cs_index = 1, c_scatter_cs_index = 1, c_cell_mfp = Fin (1/2),
      c_local_density = Fin 1, c_microscopic_cs_scatter = Fin 1,
      c_microscopic_cs_absorb = Fin 1, c_number_density = Fin 1,
      c_macroscopic_cs_scatter = Fin 1, c_macroscopic_cs_absorb = Fin 1,
      c_speed = Fin 1, c_energy_deposition = Fin 0, c_distance_to_facet = Fin (1/2),
      c_key = 0, c_next_event = PARTICLE_FACET\<rparr>"

text \<open>
  The same particle with the census half a cell away and the collision a whole cell away.
\<close>

definition tie_particle :: particle where
  "tie_particle = demo_particle\<lparr>p_dt_to_census := Fin (1/2), p_mfp_to_collision := Fin 2\<rparr>"

text \<open>The same arguments with a time step of length zero.\<close>

definition still_args :: args where
  "still_args = demo_args\<lparr>a_dt := Fin 0\<rparr>"

text \<open>The lanes of the block of one \<^verbatim>\<open>demo_particle\<close>, initialised.\<close>

definition demo_lanes :: "lane list" where
  "demo_lanes =
     [(demo_particle\<lparr>p_dt_to_census := Fin 2, p_mfp_to_collision := Fin (ln 2)\<rparr>,
       demo_cache\<lparr>c_x_facet := 0, c_cell_mfp := Fin 0\<rparr>)]"

section \<open>Arithmetic of doubles\<close>

lemma dbl_less_irrefl: "\<not> (a::dbl) < a"
  by (cases a) simp_all

lemma Fin_minus [simp]: "Fin a - Fin b = Fin (a - b)"
  by (simp add: minus_dbl_def)


lemma dbl_neg_of_pos: "Fin 0 < (w::dbl) \<Longrightarrow> - w < Fin 0 \<and> \<not> Fin 0 < - w"
  by (cases w) auto

lemma dbl_le_not_less: "(a::dbl) \<le> b \<Longrightarrow> \<not> b < a"
  by (cases a; cases b) auto

lemma dbl_less_not_less: "(a::dbl) < b \<Longrightarrow> \<not> b < a"
  by (cases a; cases b) auto

lemma dbl_less_not_nan: "(a::dbl) < b \<Longrightarrow> a \<noteq> NaN \<and> b \<noteq> NaN"
  by (cases a; cases b) auto

lemma dbl_le_not_nan: "(a::dbl) \<le> b \<Longrightarrow> a \<noteq> NaN \<and> b \<noteq> NaN"
  by (cases a; cases b) auto

lemma dbl_not_less_le: "\<not> (a::dbl) < b \<Longrightarrow> a \<noteq> NaN \<Longrightarrow> b \<noteq> NaN \<Longrightarrow> b \<le> a"
  by (cases a; cases b) auto

lemma dbl_not_le_less: "\<not> (a::dbl) \<le> b \<Longrightarrow> a \<noteq> NaN \<Longrightarrow> b \<noteq> NaN \<Longrightarrow> b < a"
  by (cases a; cases b) auto

lemma dbl_le_less_trans: "(a::dbl) \<le> b \<Longrightarrow> b < c \<Longrightarrow> a < c"
  by (cases a; cases b; cases c) auto

text \<open>On operands that are not negative, the division of C is the one of HOL.\<close>

lemma sdiv_nonneg: "0 \<le> k \<Longrightarrow> 0 \<le> l \<Longrightarrow> k sdiv l = k div (l::int)"
  by (auto simp: signed_divide_int_def sgn_if)


section \<open>Event selection\<close>

text \<open>
  Claim C1, as amended. At the classification of a lane, for every live particle, when
  the distance to collision equals the distance to facet and both are strictly less than
  the distance to census, the lane is classified as a facet crossing. At the three-way
  comparison a collision is selected exactly when its distance is strictly less than
  both others, a facet crossing exactly when no collision is selected and the distance
  to facet is strictly less than the distance to census, and the census in every other
  case: when the distance to facet equals the distance to census and no collision is
  selected, the lane is classified as a census.
\<close>

theorem calc_event_strict_comparisons:
  assumes "p_dead p = 0"
  shows
    "let c' = calc_event ex ar p c;
         distance_to_collision = p_mfp_to_collision p * c_cell_mfp c';
         distance_to_facet = c_distance_to_facet c';
         distance_to_census = c_speed c * p_dt_to_census p;
         collides = (distance_to_collision < distance_to_facet \<and>
                     distance_to_collision < distance_to_census)
     in (c_next_event c' = PARTICLE_COLLISION \<longleftrightarrow> collides) \<and>
        (c_next_event c' = PARTICLE_FACET \<longleftrightarrow>
           \<not> collides \<and> distance_to_facet < distance_to_census) \<and>
        (c_next_event c' = PARTICLE_CENSUS \<longleftrightarrow>
           \<not> collides \<and> \<not> distance_to_facet < distance_to_census) \<and>
        (distance_to_collision = distance_to_facet \<and> distance_to_facet < distance_to_census
           \<longrightarrow> c_next_event c' = PARTICLE_FACET) \<and>
        (distance_to_facet = distance_to_census \<and> \<not> collides
           \<longrightarrow> c_next_event c' = PARTICLE_CENSUS)"
  using assms
  by (auto simp add: calc_event_def Let_def select_event_def dbl_less_irrefl case_prod_beta)

text \<open>
  Two particles in the middle of cell (0, 0) that move along x, half a cell from the
  facet. For the first the collision is as far as the facet and the census farther;
  for the second the census is as far as the facet and the collision farther.
\<close>

lemma demo_calc_event:
  "calc_event demo_externals demo_args demo_particle demo_cache =
     demo_cache\<lparr>c_cell_mfp := Fin (1/2), c_distance_to_facet := Fin (1/2), c_x_facet := 1,
       c_next_event := PARTICLE_FACET\<rparr>"
  by (simp add: calc_event_def Let_def select_event_def calc_distance_to_facet_def
        facet_dt_def demo_externals_def demo_args_def demo_particle_def demo_cache_def
        unit_edges_def)

lemma tie_calc_event:
  "calc_event demo_externals demo_args tie_particle demo_cache =
     demo_cache\<lparr>c_cell_mfp := Fin (1/2), c_distance_to_facet := Fin (1/2), c_x_facet := 1,
       c_next_event := PARTICLE_CENSUS\<rparr>"
  by (simp add: calc_event_def Let_def select_event_def calc_distance_to_facet_def
        facet_dt_def demo_externals_def demo_args_def demo_particle_def demo_cache_def
        unit_edges_def tie_particle_def)

lemma demo_distances:
  "p_dead demo_particle = 0"
  "p_mfp_to_collision demo_particle *
     c_cell_mfp (calc_event demo_externals demo_args demo_particle demo_cache) = Fin (1/2)"
  "c_distance_to_facet (calc_event demo_externals demo_args demo_particle demo_cache) =
     Fin (1/2)"
  "c_speed demo_cache * p_dt_to_census demo_particle = Fin 2"
  by (simp_all add: demo_calc_event) (simp_all add: demo_particle_def demo_cache_def)

lemma tie_distances:
  "p_dead tie_particle = 0"
  "p_mfp_to_collision tie_particle *
     c_cell_mfp (calc_event demo_externals demo_args tie_particle demo_cache) = Fin 1"
  "c_distance_to_facet (calc_event demo_externals demo_args tie_particle demo_cache) =
     Fin (1/2)"
  "c_speed demo_cache * p_dt_to_census tie_particle = Fin (1/2)"
  by (simp_all add: tie_calc_event)
     (simp_all add: tie_particle_def demo_particle_def demo_cache_def)

theorem calc_event_strict_comparisons_witness:
  "p_dead demo_particle = 0 \<and>
   p_mfp_to_collision demo_particle *
     c_cell_mfp (calc_event demo_externals demo_args demo_particle demo_cache) =
     c_distance_to_facet (calc_event demo_externals demo_args demo_particle demo_cache) \<and>
   c_distance_to_facet (calc_event demo_externals demo_args demo_particle demo_cache) <
     c_speed demo_cache * p_dt_to_census demo_particle \<and>
   c_next_event (calc_event demo_externals demo_args demo_particle demo_cache) = PARTICLE_FACET \<and>
   p_dead tie_particle = 0 \<and>
   c_distance_to_facet (calc_event demo_externals demo_args tie_particle demo_cache) =
     c_speed demo_cache * p_dt_to_census tie_particle \<and>
   \<not> p_mfp_to_collision tie_particle *
       c_cell_mfp (calc_event demo_externals demo_args tie_particle demo_cache) <
     c_distance_to_facet (calc_event demo_externals demo_args tie_particle demo_cache) \<and>
   c_next_event (calc_event demo_externals demo_args tie_particle demo_cache) = PARTICLE_CENSUS"
proof -
  from calc_event_strict_comparisons [OF demo_distances(1), of demo_externals demo_args demo_cache]
  have a: "c_next_event (calc_event demo_externals demo_args demo_particle demo_cache) =
      PARTICLE_FACET"
    by (simp add: Let_def demo_distances)
  from calc_event_strict_comparisons [OF tie_distances(1), of demo_externals demo_args demo_cache]
  have b: "c_next_event (calc_event demo_externals demo_args tie_particle demo_cache) =
      PARTICLE_CENSUS"
    by (simp add: Let_def tie_distances)
  from a b show ?thesis
    by (simp add: demo_distances tie_distances)
qed

text \<open>
  The claim as it was written fails on both ties: with the collision as far as the facet
  (1/2) and the census at 2 the lane is not a collision, and with the census as far as the
  facet (1/2) and the collision at 1 the lane is not a facet crossing.
\<close>

theorem calc_event_tie_counterexample:
  "p_dead demo_particle = 0 \<and>
   p_mfp_to_collision demo_particle *
     c_cell_mfp (calc_event demo_externals demo_args demo_particle demo_cache) = Fin (1/2) \<and>
   c_distance_to_facet (calc_event demo_externals demo_args demo_particle demo_cache) =
     Fin (1/2) \<and>
   c_speed demo_cache * p_dt_to_census demo_particle = Fin 2 \<and>
   c_next_event (calc_event demo_externals demo_args demo_particle demo_cache)
     \<noteq> PARTICLE_COLLISION \<and>
   p_dead tie_particle = 0 \<and>
   p_mfp_to_collision tie_particle *
     c_cell_mfp (calc_event demo_externals demo_args tie_particle demo_cache) = Fin 1 \<and>
   c_distance_to_facet (calc_event demo_externals demo_args tie_particle demo_cache) =
     Fin (1/2) \<and>
   c_speed demo_cache * p_dt_to_census tie_particle = Fin (1/2) \<and>
   c_next_event (calc_event demo_externals demo_args tie_particle demo_cache)
     \<noteq> PARTICLE_FACET"
  by (simp add: demo_distances tie_distances) (simp add: demo_calc_event tie_calc_event)

section \<open>Distance to the next facet\<close>

text \<open>
  Claim C6, as amended. In \<^verbatim>\<open>calc_distance_to_facet\<close>, for every input where the two
  axis travel times are equal (\<^verbatim>\<open>dt_x = dt_y\<close>), the crossing is reported as a y-facet
  crossing: \<^verbatim>\<open>x_facet = 0\<close>.
\<close>

theorem calc_distance_to_facet_tie:
  "facet_dt obc x omega_x speed (particle_cellx - x_off + pad) edgex =
   facet_dt obc y omega_y speed (particle_celly - y_off + pad) edgey \<Longrightarrow>
   snd (calc_distance_to_facet obc global_nx x y pad x_off y_off omega_x omega_y speed
          particle_cellx particle_celly edgex edgey) = 0"
  by (simp add: calc_distance_to_facet_def Let_def dbl_less_irrefl)

theorem calc_distance_to_facet_tie_witness:
  "facet_dt (Fin (1 / 10 ^ 14)) (Fin (1/2)) (Fin (sqrt 2 / 2)) (Fin 1) (0 - 0 + 0) unit_edges =
   facet_dt (Fin (1 / 10 ^ 14)) (Fin (1/2)) (Fin (sqrt 2 / 2)) (Fin 1) (0 - 0 + 0) unit_edges \<and>
   snd (calc_distance_to_facet (Fin (1 / 10 ^ 14)) 4 (Fin (1/2)) (Fin (1/2)) 0 0 0
          (Fin (sqrt 2 / 2)) (Fin (sqrt 2 / 2)) (Fin 1) 0 0 unit_edges unit_edges) = 0"
proof -
  have h: "facet_dt (Fin (1 / 10 ^ 14)) (Fin (1/2)) (Fin (sqrt 2 / 2)) (Fin 1) (0 - 0 + 0)
        unit_edges =
      facet_dt (Fin (1 / 10 ^ 14)) (Fin (1/2)) (Fin (sqrt 2 / 2)) (Fin 1) (0 - 0 + 0)
        unit_edges"
    by (rule refl)
  from calc_distance_to_facet_tie [OF h, of 4] show ?thesis
    by simp
qed

text \<open>
  A particle in the middle of its cell that moves along the diagonal: the two travel
  times are the results of the same operations on the same values.
\<close>

theorem calc_distance_to_facet_tie_counterexample:
  "Fin (sqrt 2 / 2) * Fin (sqrt 2 / 2) + Fin (sqrt 2 / 2) * Fin (sqrt 2 / 2) = Fin 1 \<and>
   facet_dt (Fin (1 / 10 ^ 14)) (Fin (1/2)) (Fin (sqrt 2 / 2)) (Fin 1) 0 unit_edges =
     Fin (sqrt 2 / 2) \<and>
   snd (calc_distance_to_facet (Fin (1 / 10 ^ 14)) 4 (Fin (1/2)) (Fin (1/2)) 0 0 0
          (Fin (sqrt 2 / 2)) (Fin (sqrt 2 / 2)) (Fin 1) 0 0 unit_edges unit_edges) \<noteq> 1"
proof -
  have a: "sqrt 2 / 2 * (sqrt 2 / 2) + sqrt 2 / 2 * (sqrt 2 / 2) = (1::real)"
    by simp
  have b: "1 / sqrt 2 = sqrt 2 / (2::real)"
    by (simp add: real_div_sqrt field_simps)
  have c: "facet_dt (Fin (1 / 10 ^ 14)) (Fin (1/2)) (Fin (sqrt 2 / 2)) (Fin 1) 0 unit_edges =
      Fin (sqrt 2 / 2)"
    using b by (simp add: facet_dt_def Let_def unit_edges_def)
  have d: "snd (calc_distance_to_facet (Fin (1 / 10 ^ 14)) 4 (Fin (1/2)) (Fin (1/2)) 0 0 0
          (Fin (sqrt 2 / 2)) (Fin (sqrt 2 / 2)) (Fin 1) 0 0 unit_edges unit_edges) \<noteq> 1"
    by (simp add: calc_distance_to_facet_def Let_def dbl_less_irrefl)
  from a c d show ?thesis by simp
qed




section \<open>Facet and census kernels\<close>

text \<open>
  Claim C2, where the code departs from it. A particle in the first cell along x
  (\<^verbatim>\<open>cellx = 0\<close>) of a mesh with more than one cell that crosses an x-facet moving
  right, into the mesh, has its direction cosine negated and keeps its cell index: the
  test of \<^verbatim>\<open>facet_event\<close> for the boundary does not look at the direction.
\<close>

theorem facet_event_reflects_inward_particle:
  assumes "c_x_facet c \<noteq> 0" and "p_cellx p = 0" and "1 < a_global_nx ar"
    and "Fin 0 < p_omega_x p"
  shows "p_omega_x (fst (facet_event ex ar p c tally)) = - p_omega_x p \<and>
         p_cellx (fst (facet_event ex ar p c tally)) = 0"
  using assms dbl_neg_of_pos [OF assms(4)]
  by (simp add: facet_event_def Let_def facet_reflect_or_step_def split: prod.splits)

theorem facet_event_reflects_inward_particle_witness:
  "c_x_facet demo_cache \<noteq> 0 \<and> p_cellx demo_particle = 0 \<and> 1 < a_global_nx demo_args \<and>
   Fin 0 < p_omega_x demo_particle \<and>
   p_omega_x (fst (facet_event demo_externals demo_args demo_particle demo_cache zero_tally)) =
     Fin (- 1) \<and>
   p_cellx (fst (facet_event demo_externals demo_args demo_particle demo_cache zero_tally)) = 0"
proof -
  have a: "c_x_facet demo_cache \<noteq> 0" "p_cellx demo_particle = 0" "1 < a_global_nx demo_args"
    "Fin 0 < p_omega_x demo_particle"
    by (simp_all add: demo_cache_def demo_particle_def demo_args_def)
  have b: "- p_omega_x demo_particle = Fin (- 1)"
    by (simp add: demo_particle_def)
  from facet_event_reflects_inward_particle [OF a, of demo_externals zero_tally] a b
  show ?thesis by simp
qed

text \<open>
  Claim C10. \<^verbatim>\<open>census_event\<close> changes the position, \<^verbatim>\<open>mfp_to_collision\<close> (less
  \<^verbatim>\<open>distance_to_census / cell_mfp\<close>) and \<^verbatim>\<open>dt_to_census\<close> (set to 0) of the particle and
  leaves its energy, weight, direction cosines, cell indices and dead flag as they
  were; it adds once to the tally, in the particle's cell. The decrement can leave
  \<^verbatim>\<open>mfp_to_collision\<close> negative: it does so for a particle with none left that is moved
  a distance of one mean free path.
\<close>

theorem census_event_frame:
  "fst (census_event ex ar distance_to_census cell_mfp p c tally) =
     p\<lparr>p_x := p_x p + distance_to_census * p_omega_x p,
       p_y := p_y p + distance_to_census * p_omega_y p,
       p_mfp_to_collision := p_mfp_to_collision p - distance_to_census / cell_mfp,
       p_dt_to_census := Fin 0\<rparr> \<and>
   p_energy (fst (census_event ex ar distance_to_census cell_mfp p c tally)) = p_energy p \<and>
   p_weight (fst (census_event ex ar distance_to_census cell_mfp p c tally)) = p_weight p \<and>
   p_omega_x (fst (census_event ex ar distance_to_census cell_mfp p c tally)) = p_omega_x p \<and>
   p_omega_y (fst (census_event ex ar distance_to_census cell_mfp p c tally)) = p_omega_y p \<and>
   p_cellx (fst (census_event ex ar distance_to_census cell_mfp p c tally)) = p_cellx p \<and>
   p_celly (fst (census_event ex ar distance_to_census cell_mfp p c tally)) = p_celly p \<and>
   p_dead (fst (census_event ex ar distance_to_census cell_mfp p c tally)) = p_dead p \<and>
   snd (snd (census_event ex ar distance_to_census cell_mfp p c tally)) =
     tally (tally_index ar p := tally (tally_index ar p) +
        c_energy_deposition (fst (snd (census_event ex ar distance_to_census cell_mfp p c tally))) *
        inv_ntotal_particles ar) \<and>
   p_mfp_to_collision
     (fst (census_event ex ar (Fin 1) (Fin 1) (p\<lparr>p_mfp_to_collision := Fin 0\<rparr>) c tally)) < Fin 0"
  by (simp add: census_event_def Let_def update_tallies_def tally_index_def)

section \<open>The check of the lookups\<close>

lemma cs_search_not_terminated:
  assumes "cs_search ks energy ind width = Some r"
  shows "r \<noteq> Inl Terminated"
  by (rule cs_search.raw_induct
        [where P = "\<lambda>ks energy ind width r. r \<noteq> Inl Terminated", OF _ assms])
     (auto split: if_splits)

lemma lookup_not_terminated:
  "microscopic_cs_for_energy_binary cs energy \<noteq> Some (Inl Terminated)"
  by (auto simp: microscopic_cs_for_energy_binary_def Let_def
      split: option.splits sum.splits dest: cs_search_not_terminated)

lemma collision_event_not_terminated:
  "collision_event ex ar counter d p c tally \<noteq> Some (Inl Terminated)"
  using lookup_not_terminated
  by (auto simp: collision_event_def Let_def
      split: prod.splits option.splits sum.splits if_splits)

lemma collision_pass_not_terminated:
  "collision_pass ex ar counter ls tally \<noteq> Some (Inl Terminated)"
proof (induction ls arbitrary: tally)
  case Nil
  then show ?case by simp
next
  case (Cons l ls)
  obtain p c where l: "l = (p, c)" by (cases l)
  show ?case
    using Cons.IH collision_event_not_terminated
    by (auto simp: l Let_def split: option.splits sum.splits prod.splits)
qed

lemma check_lookups_passes: "check_lookups ex found = Inr ()"
  by (simp add: check_lookups_def array_is_null_def list_ex_iff)

text \<open>
  Claim C4, where the code departs from it. A lookup of an energy above the last key
  (or below the first) of the table walks out of the table and never returns to the
  check; the check after the collision loop passes whatever the array \<^verbatim>\<open>found\<close>
  holds, and no iteration of the event loop ends in the fatal \<^verbatim>\<open>TERMINATE\<close>.
\<close>

theorem failed_lookup_is_not_detected:
  "microscopic_cs_for_energy_binary demo_table (Fin 10) = Some (Inl OutOfBounds) \<and>
   microscopic_cs_for_energy_binary demo_table (Fin (1/2)) = Some (Inl OutOfBounds) \<and>
   check_lookups ex found = Inr () \<and>
   loop_body ex ar st \<noteq> Some (Inl Terminated)"
proof -
  have a: "microscopic_cs_for_energy_binary demo_table (Fin 10) = Some (Inl OutOfBounds)"
    by (simp add: microscopic_cs_for_energy_binary_def Let_def cs_search.simps in_table_def
          sdiv_nonneg demo_table_def)
  have b: "microscopic_cs_for_energy_binary demo_table (Fin (1/2)) = Some (Inl OutOfBounds)"
    by (simp add: microscopic_cs_for_energy_binary_def Let_def cs_search.simps in_table_def
          sdiv_nonneg demo_table_def)
  have c: "loop_body ex ar st \<noteq> Some (Inl Terminated)"
    using collision_pass_not_terminated
    by (auto simp: loop_body_def Let_def check_lookups_passes
        split: option.splits sum.splits prod.splits)
  from a b c check_lookups_passes show ?thesis
    by simp
qed

section \<open>The blocks of a time step\<close>

lemma thread_run_keeps:
  "thread_run ex ar bids stack ps tally nf nc = Some (Inr (ps', tally', nf', nc')) \<Longrightarrow>
   int i \<notin> set bids \<Longrightarrow> ps' ! i = ps ! i"
proof (induction bids arbitrary: stack ps tally nf nc)
  case Nil
  then show ?case by simp
next
  case (Cons bid bids)
  from Cons.prems(2) have ne: "int i \<noteq> bid" and ni: "int i \<notin> set bids"
    by auto
  from Cons.prems(1) obtain block' stack' tally1 nf1 nc1 where
    inb: "0 \<le> bid" "bid < int (length ps)" and
    rest: "thread_run ex ar bids stack' (ps[nat bid := block']) tally1 nf1 nc1 =
      Some (Inr (ps', tally', nf', nc'))"
    by (auto split: if_splits option.splits sum.splits)
  from ne inb have "nat bid \<noteq> i"
    by auto
  with Cons.IH [OF rest ni] show ?case
    by simp
qed

lemma threads_run_keeps:
  "threads_run ex ar nbpt tids stack ps tally nf nc = Some (Inr (ps', tally', nf', nc')) \<Longrightarrow>
   int i \<notin> set (concat (map (thread_blocks nbpt) tids)) \<Longrightarrow> ps' ! i = ps ! i"
proof (induction tids arbitrary: ps tally nf nc)
  case Nil
  then show ?case by simp
next
  case (Cons tid tids)
  from Cons.prems(1) obtain ps1 tally1 nf1 nc1 where
    one: "thread_run ex ar (thread_blocks nbpt tid) stack ps tally 0 0 =
      Some (Inr (ps1, tally1, nf1, nc1))" and
    rest: "threads_run ex ar nbpt tids stack ps1 tally1 (nf + nf1) (nc + nc1) =
      Some (Inr (ps', tally', nf', nc'))"
    by (auto split: option.splits sum.splits)
  from Cons.prems(2) have a: "int i \<notin> set (thread_blocks nbpt tid)"
    and b: "int i \<notin> set (concat (map (thread_blocks nbpt) tids))"
    by auto
  from Cons.IH [OF rest b] thread_run_keeps [OF one a] show ?case
    by simp
qed

lemma visited_blocks_three_on_two:
  "0 < BLOCK_SIZE ex \<Longrightarrow> visited_blocks ex 2 (3 * BLOCK_SIZE ex) = [0, 1]"
  by (simp add: visited_blocks_def nb_per_thread_def thread_blocks_def Let_def sdiv_nonneg
        upto.simps)

text \<open>
  Claim C3, where the code departs from it. With three blocks of particles and two
  threads, \<^verbatim>\<open>nb_per_thread\<close> is 1: the threads visit the blocks 0 and 1, and a time step
  that returns leaves the third block as it was. The remainder \<^verbatim>\<open>nb % nthreads\<close> is
  computed and never used.
\<close>

theorem solve_transport_2d_skips_remainder_block:
  assumes "0 < BLOCK_SIZE ex"
    and "solve_transport_2d ex ar 2 (3 * BLOCK_SIZE ex) stack particles tally facet_events
           collision_events = Some (Inr (particles', tally', facet_events', collision_events'))"
  shows "visited_blocks ex 2 (3 * BLOCK_SIZE ex) = [0, 1] \<and> particles' ! 2 = particles ! 2"
proof -
  have v: "visited_blocks ex 2 (3 * BLOCK_SIZE ex) = [0, 1]"
    using assms(1) by (rule visited_blocks_three_on_two)
  have "particles' ! 2 = particles ! 2"
  proof (cases "3 * BLOCK_SIZE ex = 0")
    case True
    with assms(1) show ?thesis by simp
  next
    case False
    with assms(2) obtain t f c where
      run: "threads_run ex (ar\<lparr>a_initial := 1\<rparr>) (nb_per_thread ex 2 (3 * BLOCK_SIZE ex))
         [0 .. 2 - 1] stack particles tally 0 0 = Some (Inr (particles', t, f, c))"
      by (auto simp: solve_transport_2d_def handle_particles_def
          split: option.splits sum.splits)
    have ni: "int 2 \<notin> set (concat (map (thread_blocks (nb_per_thread ex 2 (3 * BLOCK_SIZE ex)))
         [0 .. 2 - 1]))"
      using v by (simp add: visited_blocks_def)
    from threads_run_keeps [OF run ni] show ?thesis .
  qed
  with v show ?thesis by simp
qed

lemma demo_lookup:
  "microscopic_cs_for_energy_binary demo_table (Fin 2) = Some (Inr (Fin 1, 1))"
  by (simp add: microscopic_cs_for_energy_binary_def Let_def cs_search.simps in_table_def
        sdiv_nonneg cs_interpolate_def demo_table_def)

text \<open>
  A block of one live particle run through a time step of length zero: the particle is
  at census at once.
\<close>

lemma demo_handle_block:
  "handle_block demo_externals still_args bid [c] [demo_particle] T nf nc =
     Some (Inr ([demo_particle\<lparr>p_dt_to_census := Fin 0,
                   p_mfp_to_collision := Fin (- ln (1 / 2))\<rparr>],
                [c\<lparr>c_absorb_cs_index := 1, c_scatter_cs_index := 1,
                   c_local_density := Fin 1, c_microscopic_cs_scatter := Fin 1,
                   c_microscopic_cs_absorb := Fin 1, c_number_density := Fin 1,
                   c_macroscopic_cs_scatter := Fin 1,
                   c_macroscopic_cs_absorb := Fin 1, c_speed := Fin 1,
                   c_key := bid, c_cell_mfp := Fin (1 / 2),
                   c_distance_to_facet := Fin (1 / 2), c_x_facet := 1,
                   c_next_event := PARTICLE_CENSUS, c_energy_deposition := Fin 0\<rparr>],
                T(0 := T 0 + Fin 0), nf, nc))"
  by (simp add: handle_block_def init_lane_def Let_def demo_lookup still_args_def demo_args_def
        demo_particle_def demo_externals_def generate_random_numbers_def unit_density_def
        event_loop.simps loop_classify_def calc_events_def calc_event_def select_event_def
        loop_exit_def ncompleted_def count_events_def calc_distance_to_facet_def facet_dt_def
        unit_edges_def census_event_def update_tallies_def tally_index_def
        calculate_energy_deposition_def inv_ntotal_particles_def)

lemma demo_solve_transport_2d:
  "\<exists>b0 b1 t f c.
     solve_transport_2d demo_externals still_args 2 (3 * BLOCK_SIZE demo_externals) [demo_cache]
       [[demo_particle], [demo_particle], [demo_particle]] zero_tally 0 0 =
     Some (Inr ([b0, b1, [demo_particle]], t, f, c))"
proof -
  have i: "still_args\<lparr>a_initial := 1\<rparr> = still_args"
    by (simp add: still_args_def demo_args_def)
  have b: "BLOCK_SIZE demo_externals = 1"
    by (simp add: demo_externals_def)
  show ?thesis
    by (simp add: solve_transport_2d_def handle_particles_def i b nb_per_thread_def
          thread_blocks_def upto.simps demo_handle_block)
qed

theorem solve_transport_2d_skips_remainder_block_witness:
  "0 < BLOCK_SIZE demo_externals \<and>
   (\<exists>b0 b1 t f c.
      solve_transport_2d demo_externals still_args 2 (3 * BLOCK_SIZE demo_externals) [demo_cache]
        [[demo_particle], [demo_particle], [demo_particle]] zero_tally 0 0 =
      Some (Inr ([b0, b1, [demo_particle]], t, f, c))) \<and>
   visited_blocks demo_externals 2 (3 * BLOCK_SIZE demo_externals) = [0, 1]"
proof -
  have a: "0 < BLOCK_SIZE demo_externals"
    by (simp add: demo_externals_def)
  from demo_solve_transport_2d obtain b0 b1 t f c where
    r: "solve_transport_2d demo_externals still_args 2 (3 * BLOCK_SIZE demo_externals)
          [demo_cache] [[demo_particle], [demo_particle], [demo_particle]] zero_tally 0 0 =
        Some (Inr ([b0, b1, [demo_particle]], t, f, c))"
    by blast
  from solve_transport_2d_skips_remainder_block [OF a r] a demo_solve_transport_2d
  show ?thesis by simp
qed

section \<open>Correctness of the cross-section lookup\<close>

lemma bracketed_length: assumes "bracketed ks e" shows "2 \<le> length ks"
proof (rule ccontr)
  assume "\<not> 2 \<le> length ks"
  then have "length ks - 1 = 0" by simp
  with assms show False
    by (auto simp: bracketed_def dest: dbl_le_not_less)
qed

lemma bracketed_mono:
  assumes "bracketed ks e" and "i < j" and "j < length ks"
  shows "ks ! i < ks ! j"
  using assms by (auto simp: bracketed_def sorted_wrt_iff_nth_less)

lemma bracketed_key_not_nan:
  assumes "bracketed ks e" and "i < length ks"
  shows "ks ! i \<noteq> NaN"
proof (cases "i = 0")
  case True
  with bracketed_mono [OF assms(1), of 0 1] bracketed_length [OF assms(1)] show ?thesis
    by (auto dest: dbl_less_not_nan)
next
  case False
  with bracketed_mono [OF assms(1), of 0 i] assms(2) show ?thesis
    by (auto dest: dbl_less_not_nan)
qed

lemma bracketed_energy_not_nan: "bracketed ks e \<Longrightarrow> e \<noteq> NaN"
  by (auto simp: bracketed_def dest: dbl_le_not_nan)

lemma bracketed_below:
  assumes b: "bracketed ks e" and i: "i < length ks" and lt: "e < ks ! i"
  shows "0 < i"
proof (rule ccontr)
  assume "\<not> 0 < i"
  then have "i = 0" by simp
  with b lt show False
    by (auto simp: bracketed_def dest: dbl_le_not_less)
qed

lemma bracketed_above:
  assumes b: "bracketed ks e" and i: "i < length ks" and ge: "\<not> e < ks ! i"
  shows "i + 1 < length ks"
proof (rule ccontr)
  assume "\<not> i + 1 < length ks"
  with i have "i = length ks - 1" by simp
  with b ge show False
    by (auto simp: bracketed_def)
qed

text \<open>Some bin holds a bracketed energy.\<close>

lemma bracketed_target:
  assumes b: "bracketed ks e"
  shows "\<exists>t. t + 1 < length ks \<and> ks ! t \<le> e \<and> e < ks ! (t + 1)"
proof -
  let ?S = "{i. i < length ks \<and> ks ! i \<le> e}"
  have fin: "finite ?S" by simp
  have "0 \<in> ?S"
    using b bracketed_length [OF b] by (auto simp: bracketed_def)
  then have ne: "?S \<noteq> {}" by blast
  define t where "t = Max ?S"
  have tin: "t \<in> ?S" unfolding t_def using fin ne by (rule Max_in)
  then have tl: "t < length ks" and tle: "ks ! t \<le> e" by auto
  have "\<not> e < ks ! t" using tle by (rule dbl_le_not_less)
  from bracketed_above [OF b tl this] have t1: "t + 1 < length ks" .
  have "t + 1 \<notin> ?S"
  proof
    assume "t + 1 \<in> ?S"
    then have "t + 1 \<le> Max ?S" using fin by (simp only: Max_ge)
    then show False by (simp add: t_def)
  qed
  with t1 have "\<not> ks ! (t + 1) \<le> e" by simp
  from dbl_not_le_less [OF this bracketed_key_not_nan [OF b t1] bracketed_energy_not_nan [OF b]]
  have "e < ks ! (t + 1)" .
  with t1 tle show ?thesis by blast
qed


lemma cs_search_walk:
  assumes b: "bracketed ks e"
    and t: "t + 1 < length ks" "ks ! t \<le> e" "e < ks ! (t + 1)"
    and r: "0 \<le> ind" "ind < int (length ks)"
  shows "\<exists>i. cs_search ks e ind 1 = Some (Inr i) \<and> bin_of ks e i"
  using r
proof (induction "nat \<bar>ind - int t\<bar>" arbitrary: ind rule: less_induct)
  case less
  have il: "nat ind < length ks" using less.prems by simp
  have it: "in_table ks ind" using less.prems by (simp add: in_table_def)
  have w: "max 1 ((1::int) sdiv 2) = 1"
    by (simp add: signed_divide_int_def)
  show ?case
  proof (cases "e < ks ! nat ind")
    case True
    from bracketed_below [OF b il True] have pos: "0 < ind" by simp
    have "ks ! t < ks ! nat ind" using t(2) True by (rule dbl_le_less_trans)
    have "t < nat ind"
    proof (rule ccontr)
      assume "\<not> t < nat ind"
      then have "nat ind = t \<or> nat ind < t" by auto
      then show False
      proof
        assume "nat ind = t"
        with \<open>ks ! t < ks ! nat ind\<close> show False by (simp add: dbl_less_irrefl)
      next
        assume "nat ind < t"
        from bracketed_mono [OF b this] t(1) have "ks ! nat ind < ks ! t" by simp
        with \<open>ks ! t < ks ! nat ind\<close> show False by (auto dest: dbl_less_not_less)
      qed
    qed
    then have m: "nat \<bar>(ind - 1) - int t\<bar> < nat \<bar>ind - int t\<bar>" by simp
    have "0 \<le> ind - 1" "ind - 1 < int (length ks)" using pos less.prems by simp_all
    from less.hyps [OF m this] obtain i where
      "cs_search ks e (ind - 1) 1 = Some (Inr i)" "bin_of ks e i" by blast
    then show ?thesis
      using True it by (subst cs_search.simps) (simp add: w)
  next
    case False
    from bracketed_above [OF b il False] have up: "nat ind + 1 < length ks" .
    then have it1: "in_table ks (ind + 1)" using less.prems by (simp add: in_table_def)
    have n1: "nat (ind + 1) = nat ind + 1" using less.prems by simp
    show ?thesis
    proof (cases "ks ! (nat ind + 1) \<le> e")
      case True
      have "ks ! (nat ind + 1) < ks ! (t + 1)" using True t(3) by (rule dbl_le_less_trans)
      have "nat ind + 1 < t + 1"
      proof (rule ccontr)
        assume "\<not> nat ind + 1 < t + 1"
        then have "nat ind + 1 = t + 1 \<or> t + 1 < nat ind + 1" by auto
        then show False
        proof
          assume "nat ind + 1 = t + 1"
          with \<open>ks ! (nat ind + 1) < ks ! (t + 1)\<close> show False by (simp add: dbl_less_irrefl)
        next
          assume "t + 1 < nat ind + 1"
          from bracketed_mono [OF b this up] \<open>ks ! (nat ind + 1) < ks ! (t + 1)\<close>
          show False by (auto dest: dbl_less_not_less)
        qed
      qed
      then have m: "nat \<bar>(ind + 1) - int t\<bar> < nat \<bar>ind - int t\<bar>"
        using less.prems by simp
      have "0 \<le> ind + 1" "ind + 1 < int (length ks)" using up less.prems by simp_all
      from less.hyps [OF m this] obtain i where
        "cs_search ks e (ind + 1) 1 = Some (Inr i)" "bin_of ks e i" by blast
      then show ?thesis
        using False True it it1 by (subst cs_search.simps) (simp add: w n1)
    next
      case nle: False
      have "ks ! nat ind \<le> e"
        using False bracketed_energy_not_nan [OF b] bracketed_key_not_nan [OF b il]
        by (rule dbl_not_less_le)
      moreover have "e < ks ! (nat ind + 1)"
        using nle bracketed_key_not_nan [OF b up] bracketed_energy_not_nan [OF b]
        by (rule dbl_not_le_less)
      ultimately have "bin_of ks e ind"
        using up less.prems by (simp add: bin_of_def)
      moreover have "cs_search ks e ind 1 = Some (Inr ind)"
        using False nle it it1 by (subst cs_search.simps) (simp add: n1)
      ultimately show ?thesis by blast
    qed
  qed
qed


lemma cs_search_halving:
  assumes b: "bracketed ks e"
    and t: "t + 1 < length ks" "ks ! t \<le> e" "e < ks ! (t + 1)"
    and r: "0 \<le> ind" "ind < int (length ks)"
    and w: "0 \<le> width"
    and inv: "width \<le> 1 \<or> (2 * width \<le> ind \<and> ind + 2 * width \<le> int (length ks))"
  shows "\<exists>i. cs_search ks e ind width = Some (Inr i) \<and> bin_of ks e i"
  using r w inv
proof (induction "nat width" arbitrary: ind width rule: less_induct)
  case less
  have il: "nat ind < length ks" using less.prems by simp
  have it: "in_table ks ind" using less.prems by (simp add: in_table_def)
  have nxt: "\<exists>i. cs_search ks e ind' (max 1 (width sdiv 2)) = Some (Inr i) \<and> bin_of ks e i"
    if "0 \<le> ind'" "ind' < int (length ks)"
      "width \<le> 1 \<or> (2 * (width div 2) \<le> ind' \<and> ind' + 2 * (width div 2) \<le> int (length ks))"
    for ind'
  proof (cases "width \<le> 1")
    case True
    with less.prems have "width = 0 \<or> width = 1" by auto
    then have "max 1 (width sdiv 2) = 1"
      by (auto simp: signed_divide_int_def)
    with cs_search_walk [OF b t that(1,2)] show ?thesis by simp
  next
    case False
    then have w2: "2 \<le> width" by simp
    then have m: "max 1 (width sdiv 2) = width div 2"
      by (simp add: sdiv_nonneg)
    have "nat (width div 2) < nat width" "0 \<le> width div 2" using w2 by simp_all
    moreover have "width div 2 \<le> 1 \<or>
        (2 * (width div 2) \<le> ind' \<and> ind' + 2 * (width div 2) \<le> int (length ks))"
      using that(3) False by simp
    ultimately show ?thesis
      using less.hyps [of "width div 2" ind'] that(1,2) m by simp
  qed
  show ?case
  proof (cases "e < ks ! nat ind")
    case True
    from bracketed_below [OF b il True] have pos: "0 < ind" by simp
    have "\<exists>i. cs_search ks e (ind + - width) (max 1 (width sdiv 2)) = Some (Inr i) \<and> bin_of ks e i"
      using less.prems pos by (intro nxt) auto
    then show ?thesis
      using True it by (subst cs_search.simps) simp
  next
    case False
    from bracketed_above [OF b il False] have up: "nat ind + 1 < length ks" .
    then have it1: "in_table ks (ind + 1)" using less.prems by (simp add: in_table_def)
    have n1: "nat (ind + 1) = nat ind + 1" using less.prems by simp
    show ?thesis
    proof (cases "ks ! (nat ind + 1) \<le> e")
      case True
      have "\<exists>i. cs_search ks e (ind + width) (max 1 (width sdiv 2)) = Some (Inr i) \<and> bin_of ks e i"
        using less.prems up by (intro nxt) auto
      then show ?thesis
        using False True it it1 by (subst cs_search.simps) (simp add: n1)
    next
      case nle: False
      have "ks ! nat ind \<le> e"
        using False bracketed_energy_not_nan [OF b] bracketed_key_not_nan [OF b il]
        by (rule dbl_not_less_le)
      moreover have "e < ks ! (nat ind + 1)"
        using nle bracketed_key_not_nan [OF b up] bracketed_energy_not_nan [OF b]
        by (rule dbl_not_le_less)
      ultimately have "bin_of ks e ind"
        using up less.prems by (simp add: bin_of_def)
      moreover have "cs_search ks e ind width = Some (Inr ind)"
        using False nle it it1 by (subst cs_search.simps) (simp add: n1)
      ultimately show ?thesis by blast
    qed
  qed
qed

text \<open>
  Claim C7. For a table with strictly increasing keys and an energy \<^verbatim>\<open>E\<close> with
  \<^verbatim>\<open>keys[0] <= E < keys[N-1]\<close>, the lookup returns: it finds an index \<^verbatim>\<open>i\<close> with
  \<^verbatim>\<open>keys[i] <= E < keys[i+1]\<close>, reading inside the table only, and gives the value
  interpolated between \<^verbatim>\<open>values[i]\<close> and \<^verbatim>\<open>values[i+1]\<close>. The search is \<^verbatim>\<open>cs_search\<close>,
  started at \<^verbatim>\<open>N/2\<close> with the stride \<^verbatim>\<open>(N/2)/2\<close>, halved at each step and never below 1.
\<close>

theorem microscopic_cs_for_energy_binary_brackets:
  assumes "sorted_wrt (<) (cs_keys cs)"
    and "nentries cs = int (length (cs_keys cs))"
    and "length (cs_values cs) = length (cs_keys cs)"
    and "cs_keys cs ! 0 \<le> energy"
    and "energy < cs_keys cs ! (length (cs_keys cs) - 1)"
  shows "\<exists>i. microscopic_cs_for_energy_binary cs energy =
           Some (Inr (cs_values cs ! i +
                      ((energy - cs_keys cs ! i) / (cs_keys cs ! (i + 1) - cs_keys cs ! i)) *
                      (cs_values cs ! (i + 1) - cs_values cs ! i), int i)) \<and>
         i + 1 < length (cs_keys cs) \<and>
         cs_keys cs ! i \<le> energy \<and> energy < cs_keys cs ! (i + 1)"
proof -
  let ?ks = "cs_keys cs"
  let ?n = "int (length ?ks)"
  have b: "bracketed ?ks energy"
    using assms(1,4,5) by (simp add: bracketed_def)
  from bracketed_target [OF b] obtain t where
    t: "t + 1 < length ?ks" "?ks ! t \<le> energy" "energy < ?ks ! (t + 1)" by blast
  from bracketed_length [OF b] have n2: "2 \<le> ?n" by simp
  have s1: "?n sdiv 2 = ?n div 2" by (simp add: sdiv_nonneg)
  have s2: "(?n div 2) sdiv 2 = ?n div 2 div 2" by (simp add: sdiv_nonneg)
  have "\<exists>i. cs_search ?ks energy (?n div 2) (?n div 2 div 2) = Some (Inr i) \<and> bin_of ?ks energy i"
    using n2 by (intro cs_search_halving [OF b t]) auto
  then obtain i where
    i: "cs_search ?ks energy (?n div 2) (?n div 2 div 2) = Some (Inr i)" "bin_of ?ks energy i"
    by blast
  from i(2) have bi: "0 \<le> i" "nat i + 1 < length ?ks" "?ks ! nat i \<le> energy"
    "energy < ?ks ! (nat i + 1)"
    by (simp_all add: bin_of_def)
  have n1: "nat (i + 1) = nat i + 1" using bi(1) by simp
  have iv: "in_table (cs_values cs) i" "in_table (cs_values cs) (i + 1)"
    using bi(1,2) assms(3) by (auto simp: in_table_def)
  have "microscopic_cs_for_energy_binary cs energy =
      Some (Inr (cs_values cs ! nat i +
                 ((energy - ?ks ! nat i) / (?ks ! (nat i + 1) - ?ks ! nat i)) *
                 (cs_values cs ! (nat i + 1) - cs_values cs ! nat i), int (nat i)))"
    using i(1) bi(1) iv assms(2)
    by (simp add: microscopic_cs_for_energy_binary_def Let_def s1 s2
          cs_interpolate_def n1)
  with bi show ?thesis by blast
qed

theorem microscopic_cs_for_energy_binary_brackets_witness:
  "sorted_wrt (<) (cs_keys demo_table) \<and>
   nentries demo_table = int (length (cs_keys demo_table)) \<and>
   length (cs_values demo_table) = length (cs_keys demo_table) \<and>
   cs_keys demo_table ! 0 \<le> Fin 3 \<and>
   Fin 3 < cs_keys demo_table ! (length (cs_keys demo_table) - 1) \<and>
   (\<exists>i. microscopic_cs_for_energy_binary demo_table (Fin 3) =
           Some (Inr (cs_values demo_table ! i +
                      ((Fin 3 - cs_keys demo_table ! i) /
                       (cs_keys demo_table ! (i + 1) - cs_keys demo_table ! i)) *
                      (cs_values demo_table ! (i + 1) - cs_values demo_table ! i), int i)) \<and>
         i + 1 < length (cs_keys demo_table) \<and>
         cs_keys demo_table ! i \<le> Fin 3 \<and> Fin 3 < cs_keys demo_table ! (i + 1))"
proof -
  have h: "sorted_wrt (<) (cs_keys demo_table)"
    "nentries demo_table = int (length (cs_keys demo_table))"
    "length (cs_values demo_table) = length (cs_keys demo_table)"
    "cs_keys demo_table ! 0 \<le> Fin 3"
    "Fin 3 < cs_keys demo_table ! (length (cs_keys demo_table) - 1)"
    by (simp_all add: demo_table_def)
  from microscopic_cs_for_energy_binary_brackets [OF h] h show ?thesis
    by simp
qed

section \<open>The angle and the energy of an elastic scattering\<close>

lemma pos_cases: "pos v \<Longrightarrow> (\<And>r. v = Fin r \<Longrightarrow> 0 < r \<Longrightarrow> thesis) \<Longrightarrow> thesis"
  by (cases v) auto

lemma unit_interval_cases:
  "unit_interval v \<Longrightarrow> (\<And>r. v = Fin r \<Longrightarrow> 0 \<le> r \<Longrightarrow> r < 1 \<Longrightarrow> thesis) \<Longrightarrow> thesis"
  by (cases v) auto

text \<open>
  The cosine of the scattering angle in the laboratory frame lies in [-1, 1], and the
  energy after the collision is positive.
\<close>

lemma scatter_cosine:
  fixes a e mu :: real
  assumes a: "0 < a" and e: "0 < e" and mu: "- 1 < mu" "mu \<le> 1"
  defines "X \<equiv> a * a + 2 * a * mu + 1"
  defines "en \<equiv> e * X / ((a + 1) * (a + 1))"
  defines "ct \<equiv> 1/2 * (a + 1) * sqrt (en / e) - 1/2 * (a - 1) * sqrt (e / en)"
  shows "0 < X" and "0 < en" and "ct * ct \<le> 1"
proof -
  have "X = (a + mu) * (a + mu) + (1 - mu * mu)"
    by (simp add: X_def algebra_simps)
  moreover have "0 \<le> (a + mu) * (a + mu)" by simp
  moreover have "0 \<le> 1 - mu * mu"
    using mu by (simp add: mult_le_one abs_le_square_iff [symmetric] power2_eq_square [symmetric] abs_square_le_1)
  moreover have "(a + mu) * (a + mu) + (1 - mu * mu) \<noteq> 0"
  proof
    assume z: "(a + mu) * (a + mu) + (1 - mu * mu) = 0"
    with \<open>0 \<le> (a + mu) * (a + mu)\<close> \<open>0 \<le> 1 - mu * mu\<close>
    have "(a + mu) * (a + mu) = 0" by linarith
    then have "a = - mu" by simp
    with a mu have "mu < 0" by simp
    from z \<open>(a + mu) * (a + mu) = 0\<close> have "mu * mu = 1" by simp
    then have "(mu - 1) * (mu + 1) = 0" by (simp add: algebra_simps)
    then have "mu = 1 \<or> mu = - 1" by auto
    with mu \<open>mu < 0\<close> show False by auto
  qed
  ultimately show X: "0 < X" by linarith
  have Y: "0 < (a + 1) * (a + 1)" using a by simp
  show en: "0 < en" using e X Y by (simp add: en_def)
  define q where "q = X / ((a + 1) * (a + 1))"
  have q: "0 < q" using X Y by (simp add: q_def)
  have e1: "en / e = q" using e by (simp add: en_def q_def)
  have e2: "e / en = 1 / q" using e X a by (simp add: en_def q_def)
  have ap: "a + 1 \<noteq> 0" using a by simp
  have q1: "(a + 1) * q = X / (a + 1)" using ap by (simp add: q_def)
  define s where "s = sqrt q"
  have s: "0 < s" "s * s = q" using q by (simp_all add: s_def)
  have ct: "ct = 1/2 * (a + 1) * s - 1/2 * (a - 1) / s"
    using q by (simp add: ct_def e1 e2 s_def real_sqrt_divide)
  have "ct * s = 1/2 * (a + 1) * (s * s) - 1/2 * (a - 1)"
    using s(1) by (simp add: ct field_simps)
  then have "ct * s = 1/2 * (a + 1) * q - 1/2 * (a - 1)"
    by (simp only: s(2))
  also have "\<dots> = 1/2 * ((a + 1) * q) - 1/2 * (a - 1)"
    by simp
  also have "\<dots> = 1/2 * (X / (a + 1)) - 1/2 * (a - 1)"
    by (simp only: q1)
  also have "\<dots> = (a * mu + 1) / (a + 1)"
    using ap by (simp add: X_def field_simps)
  finally have cs: "ct * s = (a * mu + 1) / (a + 1)" .
  have "ct * ct * q = (ct * s) * (ct * s)" using s(2) by (simp add: algebra_simps)
  also have "\<dots> = (a * mu + 1) * (a * mu + 1) / ((a + 1) * (a + 1))"
    by (simp add: cs)
  finally have "ct * ct * (X / ((a + 1) * (a + 1))) =
      (a * mu + 1) * (a * mu + 1) / ((a + 1) * (a + 1))"
    by (simp only: q_def)
  then have "ct * ct * X = (a * mu + 1) * (a * mu + 1)"
    using ap by simp
  moreover have "(a * mu + 1) * (a * mu + 1) \<le> X"
  proof -
    have "mu * mu \<le> 1"
      using mu by (simp add: abs_le_square_iff [symmetric] power2_eq_square [symmetric] abs_square_le_1)
    then have "a * a * (mu * mu) \<le> a * a * 1"
      by (intro mult_left_mono) simp_all
    then show ?thesis by (simp add: X_def algebra_simps)
  qed
  ultimately have "ct * ct * X \<le> 1 * X" by simp
  then show "ct * ct \<le> 1" using X by (simp only: mult_le_cancel_right_pos)
qed


lemma demo_lookup_scattered:
  "microscopic_cs_for_energy_binary demo_table (Fin (10/9)) = Some (Inr (Fin 1, 0))"
  by (simp add: microscopic_cs_for_energy_binary_def Let_def cs_search.simps in_table_def
        sdiv_nonneg cs_interpolate_def demo_table_def)

section \<open>The clocks of a particle at the head of the event loop\<close>

lemma pos_mult: "pos a \<Longrightarrow> pos b \<Longrightarrow> pos (a * b)"
  by (cases a; cases b) auto

lemma pos_div: "pos a \<Longrightarrow> pos b \<Longrightarrow> pos (a / b)"
  by (cases a; cases b) auto

lemma nonneg_mult: "nonneg a \<Longrightarrow> nonneg b \<Longrightarrow> nonneg (a * b)"
  by (cases a; cases b) auto

lemma pos_nonneg: "pos a \<Longrightarrow> nonneg a"
  by (cases a) auto

lemma pos_add_nonneg: "pos a \<Longrightarrow> nonneg b \<Longrightarrow> pos (a + b)"
  by (cases a; cases b) auto

lemma pos_sqrt: "pos a \<Longrightarrow> pos (dsqrt a)"
  by (cases a) auto

lemma pos_is_fin: "pos a \<Longrightarrow> is_fin a"
  by (cases a) auto

lemma pos_two: "pos (Fin 2)" and pos_one: "pos (Fin 1)"
  by simp_all

text \<open>The two clocks of a particle stay non-negative.\<close>

lemma ln_div_nonpos: "0 < r \<Longrightarrow> r < 1 \<Longrightarrow> 0 < s \<Longrightarrow> ln r / s \<le> (0::real)"
  by (simp add: divide_le_0_iff)

lemma mfp_resampled: "unit_interval rn \<Longrightarrow> pos s \<Longrightarrow> Fin 0 \<le> - dlog rn / s"
  by (cases rn; cases s) (auto simp: ln_div_nonpos)

lemma census_time_left:
  "pos speed \<Longrightarrow> Fin 0 \<le> dt \<Longrightarrow> d < speed * dt \<Longrightarrow> Fin 0 \<le> dt - d / speed"
  by (cases speed; cases dt; cases d) (auto simp: minus_dbl_def field_simps split: if_splits)

lemma mfp_left:
  "pos cell_mfp \<Longrightarrow> Fin 0 \<le> mfp \<Longrightarrow> \<not> (mfp * cell_mfp < d \<and> mfp * cell_mfp < dc) \<Longrightarrow>
   d < dc \<Longrightarrow> Fin 0 \<le> mfp - d / cell_mfp"
  by (cases cell_mfp; cases mfp; cases d; cases dc)
     (auto simp: minus_dbl_def field_simps split: if_splits)


text \<open>What a lookup that returns has found.\<close>

lemma cs_search_result:
  assumes "cs_search ks energy ind width = Some (Inr i)"
  shows "in_table ks i \<and> in_table ks (i + 1) \<and> \<not> energy < ks ! nat i \<and>
         \<not> ks ! nat (i + 1) \<le> energy"
proof -
  have "\<forall>i. Inr i = r \<longrightarrow> in_table ks i \<and> in_table ks (i + 1) \<and> \<not> energy < ks ! nat i \<and>
         \<not> ks ! nat (i + 1) \<le> energy" if "cs_search ks energy ind width = Some r" for r
    by (rule cs_search.raw_induct
          [where P = "\<lambda>ks energy ind width r. \<forall>i. Inr i = r \<longrightarrow> in_table ks i \<and>
              in_table ks (i + 1) \<and> \<not> energy < ks ! nat i \<and> \<not> ks ! nat (i + 1) \<le> energy",
           OF _ that])
       (auto split: if_splits)
  from this [OF assms] show ?thesis by simp
qed

lemma interpolate_pos:
  assumes "is_fin k0" "is_fin k1" "is_fin e" "\<not> e < k0" "\<not> k1 \<le> e" "pos v0" "pos v1"
  shows "pos (v0 + ((e - k0) / (k1 - k0)) * (v1 - v0))"
proof -
  from assms obtain a b x y z where
    eq: "k0 = Fin a" "k1 = Fin b" "e = Fin x" "v0 = Fin y" "v1 = Fin z"
    by (cases k0; cases k1; cases e; cases v0; cases v1) auto
  with assms have o: "a \<le> x" "x < b" "0 < y" "0 < z" by auto
  define t where "t = (x - a) / (b - a)"
  have t: "0 \<le> t" "t < 1" using o by (simp_all add: t_def)
  have "y + t * (z - y) = (1 - t) * y + t * z" by (simp add: algebra_simps)
  moreover have "0 < (1 - t) * y" using t o by simp
  moreover have "0 \<le> t * z" using t o by simp
  ultimately have "0 < y + t * (z - y)" by linarith
  then show ?thesis using o by (simp add: eq t_def)
qed

lemma interpolate_nonneg:
  assumes "is_fin k0" "is_fin k1" "is_fin e" "\<not> e < k0" "\<not> k1 \<le> e" "nonneg v0" "nonneg v1"
  shows "nonneg (v0 + ((e - k0) / (k1 - k0)) * (v1 - v0))"
proof -
  from assms obtain a b x y z where
    eq: "k0 = Fin a" "k1 = Fin b" "e = Fin x" "v0 = Fin y" "v1 = Fin z"
    by (cases k0; cases k1; cases e; cases v0; cases v1) auto
  with assms have o: "a \<le> x" "x < b" "0 \<le> y" "0 \<le> z" by auto
  define t where "t = (x - a) / (b - a)"
  have t: "0 \<le> t" "t < 1" using o by (simp_all add: t_def)
  have "y + t * (z - y) = (1 - t) * y + t * z" by (simp add: algebra_simps)
  moreover have "0 \<le> (1 - t) * y" using t o by simp
  moreover have "0 \<le> t * z" using t o by simp
  ultimately have "0 \<le> y + t * (z - y)" by linarith
  then show ?thesis using o by (simp add: eq t_def)
qed

lemma lookup_value:
  assumes run: "microscopic_cs_for_energy_binary cs energy = Some (Inr (v, i))"
    and tb: "table_ok V cs" and e: "is_fin energy"
    and V: "\<And>k0 k1 v0 v1. is_fin k0 \<Longrightarrow> is_fin k1 \<Longrightarrow> \<not> energy < k0 \<Longrightarrow> \<not> k1 \<le> energy \<Longrightarrow>
              V v0 \<Longrightarrow> V v1 \<Longrightarrow> V (v0 + ((energy - k0) / (k1 - k0)) * (v1 - v0))"
  shows "V v"
proof -
  from run obtain ind0 w0 where
    s: "cs_search (cs_keys cs) energy ind0 w0 = Some (Inr i)" and
    iv: "in_table (cs_values cs) i" "in_table (cs_values cs) (i + 1)" and
    v: "v = cs_interpolate cs energy i"
    by (auto simp: microscopic_cs_for_energy_binary_def Let_def
        split: option.splits sum.splits if_splits)
  from cs_search_result [OF s] have
    ik: "in_table (cs_keys cs) i" "in_table (cs_keys cs) (i + 1)" and
    o: "\<not> energy < cs_keys cs ! nat i" "\<not> cs_keys cs ! nat (i + 1) \<le> energy"
    by simp_all
  from tb ik have "is_fin (cs_keys cs ! nat i)" "is_fin (cs_keys cs ! nat (i + 1))"
    by (auto simp: table_ok_def in_table_def list_all_length)
  moreover from tb iv have "V (cs_values cs ! nat i)" "V (cs_values cs ! nat (i + 1))"
    by (auto simp: table_ok_def in_table_def list_all_length)
  ultimately show ?thesis
    using o by (simp add: v cs_interpolate_def V)
qed

lemma lookup_pos:
  "microscopic_cs_for_energy_binary cs energy = Some (Inr (v, i)) \<Longrightarrow> table_ok pos cs \<Longrightarrow>
   is_fin energy \<Longrightarrow> pos v"
  by (erule lookup_value) (auto intro: interpolate_pos)

lemma lookup_nonneg:
  "microscopic_cs_for_energy_binary cs energy = Some (Inr (v, i)) \<Longrightarrow> table_ok nonneg cs \<Longrightarrow>
   is_fin energy \<Longrightarrow> nonneg v"
  by (erule lookup_value) (auto intro: interpolate_nonneg)

text \<open>What a lookup of both tables gives the cache.\<close>

lemma refreshed_cache:
  assumes env: "env_ok ex ar" and e: "pos energy" and ld: "pos local_density"
    and s: "microscopic_cs_for_energy_binary (a_cs_scatter_table ar) energy = Some (Inr (cs_s, i_s))"
    and a: "microscopic_cs_for_energy_binary (a_cs_absorb_table ar) energy = Some (Inr (cs_a, i_a))"
  shows "pos cs_s \<and> nonneg cs_a \<and>
         pos (local_density * AVOGADROS ex / MOLAR_MASS ex * cs_s * BARNS ex) \<and>
         nonneg (local_density * AVOGADROS ex / MOLAR_MASS ex * cs_a * BARNS ex) \<and>
         pos (dsqrt ((Fin 2 * energy * eV_TO_J ex) / PARTICLE_MASS ex))"
proof -
  from env have c: "pos (AVOGADROS ex)" "pos (MOLAR_MASS ex)" "pos (BARNS ex)"
    "pos (eV_TO_J ex)" "pos (PARTICLE_MASS ex)"
    and t: "table_ok pos (a_cs_scatter_table ar)" "table_ok nonneg (a_cs_absorb_table ar)"
    by (simp_all add: env_ok_def)
  from e have ef: "is_fin energy" by (rule pos_is_fin)
  from lookup_pos [OF s t(1) ef] have ps: "pos cs_s" .
  from lookup_nonneg [OF a t(2) ef] have pa: "nonneg cs_a" .
  have nd: "pos (local_density * AVOGADROS ex / MOLAR_MASS ex)"
    using ld c by (intro pos_div pos_mult)
  have "pos (local_density * AVOGADROS ex / MOLAR_MASS ex * cs_s * BARNS ex)"
    using nd ps c by (intro pos_mult)
  moreover have "nonneg (local_density * AVOGADROS ex / MOLAR_MASS ex * cs_a * BARNS ex)"
    by (rule nonneg_mult [OF nonneg_mult [OF pos_nonneg [OF nd] pa] pos_nonneg [OF c(3)]])
  moreover have "pos (dsqrt ((Fin 2 * energy * eV_TO_J ex) / PARTICLE_MASS ex))"
    using e c by (intro pos_sqrt pos_div pos_mult pos_two)
  ultimately show ?thesis using ps pa by simp
qed


text \<open>The kernels keep the invariant of a lane.\<close>

lemma init_lane_ok:
  assumes env: "env_ok ex ar"
    and e: "p_dead p = 0 \<longrightarrow> pos (p_energy p)"
    and run: "init_lane ex ar bid counter ip p c = Some (Inr (p', c'))"
  shows "lane_ok (p', c')"
proof (cases "p_dead p = 0")
  case False
  with run show ?thesis by (simp add: init_lane_def lane_ok_def)
next
  case True
  with e have pe: "pos (p_energy p)" by simp
  let ?ld = "a_density ar ((p_celly p - a_y_off ar + a_pad ar) * (a_nx ar + 2 * a_pad ar) +
      (p_cellx p - a_x_off ar + a_pad ar))"
  from env have ld: "pos ?ld" and dt: "Fin 0 \<le> a_dt ar" and ini: "a_initial ar = 1"
    and rng: "rng_ok ex"
    by (simp_all add: env_ok_def)
  from run True obtain cs_s i_s cs_a i_a where
    s: "microscopic_cs_for_energy_binary (a_cs_scatter_table ar) (p_energy p) = Some (Inr (cs_s, i_s))"
    and a: "microscopic_cs_for_energy_binary (a_cs_absorb_table ar) (p_energy p) = Some (Inr (cs_a, i_a))"
    by (auto simp: init_lane_def Let_def split: option.splits sum.splits)
  note rc = refreshed_cache [OF env pe ld s a]
  obtain rn0 rn1 rn2 rn3 where
    rn: "random_doubles ex (bid * nat (BLOCK_SIZE ex) + ip) (a_master_key ar) counter =
      (rn0, rn1, rn2, rn3)"
    by (cases "random_doubles ex (bid * nat (BLOCK_SIZE ex) + ip) (a_master_key ar) counter") auto
  with rng have u: "unit_interval rn0"
    by (auto simp: rng_ok_def split: prod.splits)
  from rc have "Fin 0 \<le> - dlog rn0 / (?ld * AVOGADROS ex / MOLAR_MASS ex * cs_s * BARNS ex)"
    by (intro mfp_resampled u) simp
  with run True rc pe ld dt ini show ?thesis
    by (auto simp: init_lane_def Let_def s a rn generate_random_numbers_def lane_ok_def)
qed

lemma calc_event_ok:
  assumes "lane_ok (p, c)"
  shows "lane_ok (p, calc_event ex ar p c) \<and> selected (p, calc_event ex ar p c)"
  using assms
  by (auto simp: calc_event_def Let_def lane_ok_def selected_def select_event_def
      case_prod_beta split: if_splits)

lemma collision_scatter_energy:
  assumes A: "pos (MASS_NO ex)" and r: "unit_interval rn1" and p: "pos (p_energy p)"
  shows "pos (p_energy (collision_scatter ex rn1 p))"
proof -
  from A obtain a where a: "MASS_NO ex = Fin a" "0 < a" by (rule pos_cases)
  from r obtain r1 where r1: "rn1 = Fin r1" "0 \<le> r1" "r1 < 1" by (rule unit_interval_cases)
  from p obtain e where e: "p_energy p = Fin e" "0 < e" by (rule pos_cases)
  have mu: "- 1 < 1 - 2 * r1" "1 - 2 * r1 \<le> 1" using r1 by simp_all
  note sc = scatter_cosine(2) [OF a(2) e(2) mu]
  have Y: "(a + 1) * (a + 1) \<noteq> 0" using a by simp
  show ?thesis
    using Y sc by (simp add: collision_scatter_def Let_def a r1 e)
qed

lemma collision_scatter_frame:
  "p_dead (collision_scatter ex rn1 p) = p_dead p \<and>
   p_dt_to_census (collision_scatter ex rn1 p) = p_dt_to_census p"
  by (simp add: collision_scatter_def Let_def)

lemma collision_interact_ok:
  assumes A: "pos (MASS_NO ex)" and u: "unit_interval rn1"
    and live: "p_dead p = 0" and pe: "pos (p_energy p)"
    and run: "collision_interact ex ar d rn0 rn1 p c tally = (p2, c2, t2)"
  shows "c_next_event c2 = c_next_event c \<and>
      (p_dead p2 \<noteq> 0 \<or>
       (pos (p_energy p2) \<and> p_dt_to_census p2 = p_dt_to_census p \<and>
        c_local_density c2 = c_local_density c \<and> c_speed c2 = c_speed c))"
proof -
  define c1 where "c1 = c\<lparr>c_energy_deposition := c_energy_deposition c +
      calculate_energy_deposition ex d (c_number_density c) (c_microscopic_cs_absorb c)
        (c_microscopic_cs_scatter c + c_microscopic_cs_absorb c) p\<rparr>"
  define p1 where "p1 = p\<lparr>p_x := p_x p + d * p_omega_x p, p_y := p_y p + d * p_omega_y p\<rparr>"
  define pa where "pa = c_macroscopic_cs_absorb c1 /
      (c_macroscopic_cs_scatter c1 + c_macroscopic_cs_absorb c1)"
  have p1: "p_dead p1 = 0" "pos (p_energy p1)" "p_dt_to_census p1 = p_dt_to_census p"
    using live pe by (simp_all add: p1_def)
  have c1: "c_local_density c1 = c_local_density c" "c_speed c1 = c_speed c"
    "c_next_event c1 = c_next_event c"
    by (simp_all add: c1_def)
  have r: "(if rn0 < pa then collision_absorb ex ar pa p1 c1 tally
      else (collision_scatter ex rn1 p1, c1, tally)) = (p2, c2, t2)"
    using run unfolding collision_interact_def Let_def pa_def c1_def p1_def .
  show ?thesis
  proof (cases "rn0 < pa")
    case True
    with r have "collision_absorb ex ar pa p1 c1 tally = (p2, c2, t2)" by simp
    then show ?thesis
      using p1 c1 by (auto simp: collision_absorb_def Let_def split: if_splits)
  next
    case False
    with r have "p2 = collision_scatter ex rn1 p1" "c2 = c1" by simp_all
    then show ?thesis
      using collision_scatter_energy [OF A u p1(2)] collision_scatter_frame [of ex rn1 p1]
        p1 c1 by simp
  qed
qed

lemma collision_event_ok:
  assumes env: "env_ok ex ar" and ok: "lane_ok (p, c)" and live: "p_dead p = 0"
    and sel: "d < c_speed c * p_dt_to_census p"
    and run: "collision_event ex ar counter d p c tally = Some (Inr (p', c', tally'))"
  shows "lane_ok (p', c') \<and> c_next_event c' = c_next_event c"
proof -
  from ok live have pe: "pos (p_energy p)" and sp: "pos (c_speed c)"
    and ld: "pos (c_local_density c)" and dt: "Fin 0 \<le> p_dt_to_census p"
    by (simp_all add: lane_ok_def)
  from env have A: "pos (MASS_NO ex)" and rng: "rng_ok ex"
    by (simp_all add: env_ok_def)
  obtain rn0 rn1 rn2 rn3 where
    rn: "random_doubles ex (c_key c) (a_master_key ar) counter = (rn0, rn1, rn2, rn3)"
    by (cases "random_doubles ex (c_key c) (a_master_key ar) counter") auto
  with rng have u: "unit_interval rn1" "unit_interval rn3"
    by (auto simp: rng_ok_def split: prod.splits)
  obtain p2 c2 t2 where i: "collision_interact ex ar d rn0 rn1 p c tally = (p2, c2, t2)"
    by (cases "collision_interact ex ar d rn0 rn1 p c tally") auto
  note key = collision_interact_ok [OF A u(1) live pe i]
  show ?thesis
  proof (cases "p_dead p2 = 0")
    case False
    with run key show ?thesis
      by (simp add: collision_event_def generate_random_numbers_def rn i lane_ok_def)
  next
    case True
    with key have k: "pos (p_energy p2)" "p_dt_to_census p2 = p_dt_to_census p"
      "c_local_density c2 = c_local_density c" "c_speed c2 = c_speed c"
      "c_next_event c2 = c_next_event c"
      by simp_all
    from run True obtain cs_s i_s cs_a i_a where
      s: "microscopic_cs_for_energy_binary (a_cs_scatter_table ar) (p_energy p2) =
        Some (Inr (cs_s, i_s))" and
      a: "microscopic_cs_for_energy_binary (a_cs_absorb_table ar) (p_energy p2) =
        Some (Inr (cs_a, i_a))"
      by (auto simp: collision_event_def generate_random_numbers_def rn i
          split: option.splits sum.splits)
    from ld k(3) have ld2: "pos (c_local_density c2)" by simp
    note rc = refreshed_cache [OF env k(1) ld2 s a]
    from rc have m: "Fin 0 \<le> - dlog rn3 /
        (c_local_density c2 * AVOGADROS ex / MOLAR_MASS ex * cs_s * BARNS ex)"
      by (intro mfp_resampled u) simp
    from census_time_left [OF sp dt sel]
    have t: "Fin 0 \<le> p_dt_to_census p2 - d / c_speed c2" by (simp add: k)
    from run True have
      "p' = p2\<lparr>p_mfp_to_collision := - dlog rn3 /
                 (c_local_density c2 * AVOGADROS ex / MOLAR_MASS ex * cs_s * BARNS ex),
               p_dt_to_census := p_dt_to_census p2 - d / c_speed c2\<rparr>"
      "c' = c2\<lparr>c_microscopic_cs_scatter := cs_s,
               c_scatter_cs_index := i_s,
               c_microscopic_cs_absorb := cs_a,
               c_absorb_cs_index := i_a,
               c_number_density := c_local_density c2 * AVOGADROS ex / MOLAR_MASS ex,
               c_macroscopic_cs_scatter :=
                 c_local_density c2 * AVOGADROS ex / MOLAR_MASS ex * cs_s * BARNS ex,
               c_macroscopic_cs_absorb :=
                 c_local_density c2 * AVOGADROS ex / MOLAR_MASS ex * cs_a * BARNS ex,
               c_speed := dsqrt ((Fin 2 * p_energy p2 * eV_TO_J ex) / PARTICLE_MASS ex)\<rparr>"
      by (simp_all add: collision_event_def generate_random_numbers_def rn i s a Let_def)
    then show ?thesis
      using rc m t k ld2 by (simp add: lane_ok_def)
  qed
qed

lemma facet_event_ok:
  assumes env: "env_ok ex ar" and ok: "lane_ok (p, c)" and live: "p_dead p = 0"
    and cm: "c_cell_mfp c = Fin 1 / (c_macroscopic_cs_scatter c + c_macroscopic_cs_absorb c)"
    and no: "\<not> (p_mfp_to_collision p * c_cell_mfp c < c_distance_to_facet c \<and>
              p_mfp_to_collision p * c_cell_mfp c < c_speed c * p_dt_to_census p)"
    and sel: "c_distance_to_facet c < c_speed c * p_dt_to_census p"
    and run: "facet_event ex ar p c tally = (p', c', tally')"
  shows "lane_ok (p', c')"
proof -
  from ok live have pe: "pos (p_energy p)" and sp: "pos (c_speed c)"
    and ms: "pos (c_microscopic_cs_scatter c)" and ma: "nonneg (c_microscopic_cs_absorb c)"
    and Ms: "pos (c_macroscopic_cs_scatter c)" and Ma: "nonneg (c_macroscopic_cs_absorb c)"
    and mfp: "Fin 0 \<le> p_mfp_to_collision p" and dt: "Fin 0 \<le> p_dt_to_census p"
    by (simp_all add: lane_ok_def)
  from env have k: "pos (AVOGADROS ex)" "pos (MOLAR_MASS ex)" "pos (BARNS ex)"
    and dens: "\<And>i. pos (a_density ar i)"
    by (simp_all add: env_ok_def)
  have pc: "pos (c_cell_mfp c)"
    unfolding cm by (intro pos_div pos_one pos_add_nonneg Ms Ma)
  note m' = mfp_left [OF pc mfp no sel]
  note t' = census_time_left [OF sp dt sel]
  from run have p': "p_dead p' = p_dead p" "p_energy p' = p_energy p"
    "p_mfp_to_collision p' = p_mfp_to_collision p - c_distance_to_facet c / c_cell_mfp c"
    "p_dt_to_census p' = p_dt_to_census p - c_distance_to_facet c / c_speed c"
    by (auto simp: facet_event_def Let_def split: if_splits prod.splits)
  let ?ld = "a_density ar ((p_celly p' - a_y_off ar) * a_nx ar + (p_cellx p' - a_x_off ar))"
  from run have c': "c_speed c' = c_speed c" "c_local_density c' = ?ld"
    "c_microscopic_cs_scatter c' = c_microscopic_cs_scatter c"
    "c_microscopic_cs_absorb c' = c_microscopic_cs_absorb c"
    "c_macroscopic_cs_scatter c' =
       ?ld * AVOGADROS ex / MOLAR_MASS ex * c_microscopic_cs_scatter c * BARNS ex"
    "c_macroscopic_cs_absorb c' =
       ?ld * AVOGADROS ex / MOLAR_MASS ex * c_microscopic_cs_absorb c * BARNS ex"
    by (auto simp: facet_event_def Let_def split: if_splits prod.splits)
  have nd: "pos (?ld * AVOGADROS ex / MOLAR_MASS ex)"
    using dens k by (intro pos_div pos_mult)
  have "pos (?ld * AVOGADROS ex / MOLAR_MASS ex * c_microscopic_cs_scatter c * BARNS ex)"
    using nd ms k by (intro pos_mult)
  moreover
  have "nonneg (?ld * AVOGADROS ex / MOLAR_MASS ex * c_microscopic_cs_absorb c * BARNS ex)"
    by (rule nonneg_mult [OF nonneg_mult [OF pos_nonneg [OF nd] ma] pos_nonneg [OF k(3)]])
  ultimately show ?thesis
    using p' c' pe sp ms ma m' t' dens by (simp add: lane_ok_def)
qed


text \<open>The loops over the lanes keep it.\<close>

lemma init_lanes_ok:
  assumes env: "env_ok ex ar"
  shows "init_lanes ex ar bid counter ip ls = Some (Inr ls') \<Longrightarrow>
     list_all (\<lambda>l. p_dead (fst l) = 0 \<longrightarrow> pos (p_energy (fst l))) ls \<Longrightarrow> list_all lane_ok ls'"
proof (induction ls arbitrary: ip ls')
  case Nil
  then show ?case by simp
next
  case (Cons l ls)
  obtain p c where l: "l = (p, c)" by (cases l)
  from Cons.prems(1) obtain p' c' ls1 where
    one: "init_lane ex ar bid counter ip p c = Some (Inr (p', c'))" and
    rest: "init_lanes ex ar bid counter (ip + 1) ls = Some (Inr ls1)" and
    r: "ls' = (p', c') # ls1"
    by (auto simp: l split: option.splits sum.splits)
  from Cons.prems(2) have e: "p_dead p = 0 \<longrightarrow> pos (p_energy p)"
    and es: "list_all (\<lambda>l. p_dead (fst l) = 0 \<longrightarrow> pos (p_energy (fst l))) ls"
    by (simp_all add: l)
  from init_lane_ok [OF env e one] Cons.IH [OF rest es] show ?case
    by (simp add: r)
qed

lemma calc_events_ok:
  "list_all lane_ok ls \<Longrightarrow> list_all (\<lambda>l. lane_ok l \<and> selected l) (calc_events ex ar ls)"
  by (induction ls) (auto simp: calc_events_def calc_event_ok)

lemma collision_pass_ok:
  assumes env: "env_ok ex ar"
  shows "collision_pass ex ar counter ls tally = Some (Inr (ls', tally')) \<Longrightarrow>
     list_all (\<lambda>l. lane_ok l \<and> selected l) ls \<Longrightarrow> list_all facet_ready ls'"
proof (induction ls arbitrary: tally ls')
  case Nil
  then show ?case by simp
next
  case (Cons l ls)
  obtain p c where l: "l = (p, c)" by (cases l)
  from Cons.prems(2) have ok: "lane_ok (p, c)" and sl: "selected (p, c)"
    and oks: "list_all (\<lambda>l. lane_ok l \<and> selected l) ls"
    by (simp_all add: l)
  show ?case
  proof (cases "c_next_event c = PARTICLE_COLLISION")
    case False
    with Cons.prems(1) obtain ls1 where
      rest: "collision_pass ex ar counter ls tally = Some (Inr (ls1, tally'))" and
      r: "ls' = (p, c) # ls1"
      by (auto simp: l split: option.splits sum.splits)
    from Cons.IH [OF rest oks] ok sl show ?thesis
      by (simp add: r facet_ready_def)
  next
    case True
    with Cons.prems(1) obtain p' c' tally1 ls1 where
      one: "collision_event ex ar counter (p_mfp_to_collision p * c_cell_mfp c) p c tally =
        Some (Inr (p', c', tally1))" and
      rest: "collision_pass ex ar counter ls tally1 = Some (Inr (ls1, tally'))" and
      r: "ls' = (p', c') # ls1"
      by (auto simp: l Let_def split: option.splits sum.splits)
    from sl True have live: "p_dead p = 0" and
      sel: "p_mfp_to_collision p * c_cell_mfp c < c_speed c * p_dt_to_census p"
      by (simp_all add: selected_def)
    from collision_event_ok [OF env ok live sel one] True
    have "facet_ready (p', c')" by (simp add: facet_ready_def)
    with Cons.IH [OF rest oks] show ?thesis
      by (simp add: r)
  qed
qed

lemma facet_pass_ok:
  assumes env: "env_ok ex ar"
  shows "facet_pass ex ar ls tally = (ls', tally') \<Longrightarrow> list_all facet_ready ls \<Longrightarrow>
     list_all lane_ok ls'"
proof (induction ls arbitrary: tally ls')
  case Nil
  then show ?case by simp
next
  case (Cons l ls)
  obtain p c where l: "l = (p, c)" by (cases l)
  from Cons.prems(2) have fr: "facet_ready (p, c)" and frs: "list_all facet_ready ls"
    by (simp_all add: l)
  show ?case
  proof (cases "c_next_event c = PARTICLE_FACET")
    case False
    with Cons.prems(1) obtain ls1 where
      rest: "facet_pass ex ar ls tally = (ls1, tally')" and r: "ls' = (p, c) # ls1"
      by (auto simp: l split: prod.splits)
    from Cons.IH [OF rest frs] fr show ?thesis
      by (simp add: r facet_ready_def)
  next
    case True
    with Cons.prems(1) obtain p' c' tally1 ls1 where
      one: "facet_event ex ar p c tally = (p', c', tally1)" and
      rest: "facet_pass ex ar ls tally1 = (ls1, tally')" and
      r: "ls' = (p', c') # ls1"
      by (auto simp: l split: prod.splits)
    from fr True have ok: "lane_ok (p, c)" and live: "p_dead p = 0"
      and cm: "c_cell_mfp c = Fin 1 / (c_macroscopic_cs_scatter c + c_macroscopic_cs_absorb c)"
      and no: "\<not> (p_mfp_to_collision p * c_cell_mfp c < c_distance_to_facet c \<and>
              p_mfp_to_collision p * c_cell_mfp c < c_speed c * p_dt_to_census p)"
      and sel: "c_distance_to_facet c < c_speed c * p_dt_to_census p"
      by (auto simp: facet_ready_def selected_def)
    from facet_event_ok [OF env ok live cm no sel one] Cons.IH [OF rest frs] show ?thesis
      by (simp add: r)
  qed
qed

lemma loop_step_ok:
  assumes env: "env_ok ex ar" and ok: "list_all lane_ok (l_lanes st)"
    and run: "loop_body ex ar (loop_classify ex ar st) = Some (Inr st')"
  shows "list_all lane_ok (l_lanes st')"
proof -
  let ?ls = "calc_events ex ar (l_lanes st)"
  from ok have a: "list_all (\<lambda>l. lane_ok l \<and> selected l) ?ls" by (rule calc_events_ok)
  from run obtain ls1 t1 ls2 t2 where
    c: "collision_pass ex ar (l_counter st) ?ls (l_tally st) = Some (Inr (ls1, t1))" and
    f: "facet_pass ex ar ls1 t1 = (ls2, t2)" and
    r: "l_lanes st' = ls2"
    by (auto simp: loop_body_def loop_classify_def Let_def
        split: option.splits sum.splits prod.splits)
  from facet_pass_ok [OF env f collision_pass_ok [OF env c a]] show ?thesis
    by (simp add: r)
qed

text \<open>
  Claim C5. In exact arithmetic and on well-formed inputs, every live particle has
  \<^verbatim>\<open>mfp_to_collision >= 0\<close> and \<^verbatim>\<open>dt_to_census >= 0\<close> at every head of the event loop
  of its block, as \<^verbatim>\<open>handle_particles\<close> enters it after the initialisation of the
  block: the facet kernel runs only when \<^verbatim>\<open>d_facet < d_census\<close> and \<^verbatim>\<open>d_facet <= d_coll\<close>,
  the collision kernel only when \<^verbatim>\<open>d_coll < d_census\<close>.
\<close>

theorem loop_head_clocks_nonnegative:
  assumes env: "env_ok ex ar"
    and energies: "list_all (\<lambda>p. p_dead p = 0 \<longrightarrow> pos (p_energy p)) block"
    and init: "init_lanes ex ar bid 0 0 (zip block stack) = Some (Inr ls0)"
    and head: "loop_head ex ar
                 \<lparr>l_lanes = ls0, l_tally = tally, l_counter = 1,
                  l_nfacets = nfacets, l_ncollisions = ncollisions\<rparr> st"
  shows "list_all (\<lambda>(p, c). p_dead p = 0 \<longrightarrow>
            Fin 0 \<le> p_mfp_to_collision p \<and> Fin 0 \<le> p_dt_to_census p) (l_lanes st)"
proof -
  have "list_all (\<lambda>l. p_dead (fst l) = 0 \<longrightarrow> pos (p_energy (fst l))) (zip block stack)"
    using energies by (auto simp: list_all_iff dest: set_zip_leftD)
  from init_lanes_ok [OF env init this] have ok0: "list_all lane_ok ls0" .
  from head have "list_all lane_ok (l_lanes st)"
  proof (induction rule: loop_head.induct)
    case head_first
    from ok0 show ?case by simp
  next
    case (head_next st st')
    from loop_step_ok [OF env head_next.IH head_next.hyps(3)] show ?case .
  qed
  then show ?thesis
    by (auto simp: list_all_iff lane_ok_def)
qed

lemma ln_half: "ln (1 / 2 :: real) = - ln 2"
  by (simp add: ln_div)

lemma ln2_bounds: "ln (2::real) < 1" "ln (2::real) < 2" "ln (2::real) < 4" "0 < ln (2::real)"
  using ln_2_less_1 by simp_all

lemma demo_init:
  "init_lanes demo_externals demo_args 0 0 0 (zip [demo_particle] [demo_cache]) =
     Some (Inr demo_lanes)"
  by (simp add: init_lane_def Let_def demo_lookup demo_args_def demo_particle_def
        demo_externals_def generate_random_numbers_def unit_density_def demo_cache_def
        demo_lanes_def ln_half)

text \<open>The first iteration of the event loop on these lanes is a collision.\<close>

lemma demo_step:
  "\<exists>st. loop_body demo_externals demo_args
           (loop_classify demo_externals demo_args
              \<lparr>l_lanes = demo_lanes, l_tally = zero_tally, l_counter = 1,
               l_nfacets = 0, l_ncollisions = 0\<rparr>) = Some (Inr st) \<and> l_counter st = 2"
  by (simp add: loop_body_def loop_classify_def calc_events_def calc_event_def Let_def
      select_event_def calc_distance_to_facet_def facet_dt_def unit_edges_def
      demo_lanes_def demo_particle_def demo_cache_def demo_externals_def demo_args_def
      ln2_bounds check_lookups_passes collision_event_def collision_interact_def
      generate_random_numbers_def collision_scatter_def demo_lookup_scattered)

lemma demo_not_exit:
  "\<not> loop_exit demo_externals
       (loop_classify demo_externals demo_args
          \<lparr>l_lanes = demo_lanes, l_tally = zero_tally, l_counter = 1,
           l_nfacets = 0, l_ncollisions = 0\<rparr>)"
  by (simp add: loop_exit_def ncompleted_def count_events_def loop_classify_def calc_events_def
      calc_event_def Let_def select_event_def calc_distance_to_facet_def facet_dt_def
      unit_edges_def demo_lanes_def demo_particle_def demo_cache_def demo_externals_def
      demo_args_def ln2_bounds)

theorem loop_head_clocks_nonnegative_witness:
  "env_ok demo_externals demo_args \<and>
   list_all (\<lambda>p. p_dead p = 0 \<longrightarrow> pos (p_energy p)) [demo_particle] \<and>
   init_lanes demo_externals demo_args 0 0 0 (zip [demo_particle] [demo_cache]) =
     Some (Inr demo_lanes) \<and>
   (\<exists>st. loop_head demo_externals demo_args
           \<lparr>l_lanes = demo_lanes, l_tally = zero_tally, l_counter = 1,
            l_nfacets = 0, l_ncollisions = 0\<rparr> st \<and>
         l_counter st = 2 \<and>
         list_all (\<lambda>(p, c). p_dead p = 0 \<longrightarrow>
            Fin 0 \<le> p_mfp_to_collision p \<and> Fin 0 \<le> p_dt_to_census p) (l_lanes st))"
proof -
  have env: "env_ok demo_externals demo_args"
    by (simp add: env_ok_def rng_ok_def table_ok_def demo_externals_def demo_args_def
          demo_table_def unit_density_def)
  have en: "list_all (\<lambda>p. p_dead p = 0 \<longrightarrow> pos (p_energy p)) [demo_particle]"
    by (simp add: demo_particle_def)
  from demo_step obtain st where
    st: "loop_body demo_externals demo_args
           (loop_classify demo_externals demo_args
              \<lparr>l_lanes = demo_lanes, l_tally = zero_tally, l_counter = 1,
               l_nfacets = 0, l_ncollisions = 0\<rparr>) = Some (Inr st)" "l_counter st = 2"
    by blast
  have h: "loop_head demo_externals demo_args
      \<lparr>l_lanes = demo_lanes, l_tally = zero_tally, l_counter = 1,
       l_nfacets = 0, l_ncollisions = 0\<rparr> st"
    by (rule loop_head.head_next [OF loop_head.head_first demo_not_exit st(1)])
  from loop_head_clocks_nonnegative [OF env en demo_init h] env en demo_init h st(2)
  show ?thesis by blast
qed

end
